theory Spec2Isabelle
  imports Complex_Main "HOL-Library.Sublist"
begin

section \<open>Domain model (\<^verbatim>\<open>types.ts\<close>, in src/src/lib/types.ts)\<close>

text \<open>
  The string-literal union types of \<^verbatim>\<open>types.ts\<close> are datatypes. JavaScript numbers that
  hold positions, lap counts and indices are \<open>int\<close>; numbers that hold seconds, wear
  fractions and probabilities are exact rationals (\<open>rat\<close>), so the arithmetic of the
  source is carried out without the rounding of IEEE doubles. A comparison that the
  doubles decide by their last digit (a probability against a seed) can therefore come
  out differently here; the properties proved below for every input do not rest on the
  outcome of such a comparison. Integers are unbounded. The parser admits at most 100
  race laps and 30 cars, far below \<open>2 ^ 53\<close>, where doubles stop being exact on integers;
  it puts no upper bound on the laps of a single stint, and for lap counts that a double
  no longer holds exactly the model says nothing about the code. Fields that no function below reads (the message of
  a diagnostic, the notes of the strategy, the lap times and the pace summary of the
  result) are left out of the records. Where two interfaces share a field name the
  second one carries a prefix.
\<close>

datatype Weather = cool | normal | hot | wet

datatype PaceClass = front_runner | midfield | backmarker

datatype OvertakingDifficulty = easy | medium | hard

datatype RiskProfile = conservative | balanced | aggressive

datatype TireCompound = SOFT | MEDIUM | HARD | INTERMEDIATE | WET

datatype AeroClassification = downforce_reliant | drag_reliant | aero_balanced

record RaceConfig =
  trackName :: string
  totalLaps :: int
  weather :: Weather
  fieldSize :: int

record CarProfile =
  startingGridPosition :: int
  paceClass :: PaceClass
  riskProfile :: RiskProfile
  targetMinPosition :: "int option"

record CriticalTurn =
  turnNumber :: int
  turnName :: string
  riskTags :: "string list"
  turnNote :: string

record PreviousWinnerStint =
  pwTireCompound :: TireCompound
  pwLaps :: int

record PreviousWinnerStrategy =
  year :: int
  pwLabel :: string
  pwStints :: "PreviousWinnerStint list"

text \<open>
  \<open>overtakingChance\<close> is the result of \<^verbatim>\<open>parseFloat\<close>; \<open>None\<close> stands for NaN, which
  the parser lets through (\<^verbatim>\<open>NaN < 0\<close> and \<^verbatim>\<open>NaN > 1\<close> are both false).
\<close>

record TrackProfile =
  aeroClassification :: AeroClassification
  overtakingDifficulty :: OvertakingDifficulty
  overtakingChance :: "rat option"
  criticalTurns :: "CriticalTurn list"
  previousWinnerStrategy :: "PreviousWinnerStrategy option"

record Stint =
  stintNumber :: int
  tireCompound :: TireCompound
  lapsInStint :: int

record Strategy =
  label :: string
  stints :: "Stint list"

record ParsedDSL =
  raceConfig :: RaceConfig
  carProfile :: CarProfile
  trackProfile :: TrackProfile
  strategy :: Strategy

datatype LapEvent = pit_stop | overtake | overtaken | start

text \<open>
  Of \<^verbatim>\<open>LapData\<close> the fields \<^verbatim>\<open>lapTime\<close>, \<^verbatim>\<open>fuelLoad\<close>, \<^verbatim>\<open>trafficPenalty\<close> and
  \<^verbatim>\<open>eventDetail\<close> are left out, and of \<^verbatim>\<open>StintMetrics\<close> the lap-time statistics and
  \<^verbatim>\<open>pitTimeLoss\<close>: the simulation writes them and never reads them back, so the fields
  kept here are computed exactly as in the source.
\<close>

record LapData =
  lapNumber :: int
  ldStintNumber :: int
  ldTireCompound :: TireCompound
  tireWear :: rat
  position :: int
  event :: "LapEvent option"

record StintMetrics =
  smStintNumber :: int
  smTireCompound :: TireCompound
  smTotalLaps :: int
  totalDegradationLoss :: rat
  startPosition :: int
  endPosition :: int

record PositionRange =
  range_min :: int
  range_max :: int

record SimulationResult =
  predictedFinishPosition :: int
  predictedPositionRange :: PositionRange
  positionsGained :: int
  stintMetrics :: "StintMetrics list"
  lapData :: "LapData list"
  totalPitStops :: int

section \<open>Domain tables (\<^verbatim>\<open>simulateRace.ts\<close>, listed in src/README.md)\<close>

record TireDegradationProfile =
  initialGrip :: rat
  degradationRate :: rat
  cliffLap :: int
  cliffMultiplier :: rat

fun TIRE_PROFILES :: "TireCompound \<Rightarrow> TireDegradationProfile" where
  "TIRE_PROFILES SOFT =
     \<lparr>initialGrip = 1.0, degradationRate = 0.08, cliffLap = 15, cliffMultiplier = 2.5\<rparr>"
| "TIRE_PROFILES MEDIUM =
     \<lparr>initialGrip = 0.97, degradationRate = 0.05, cliffLap = 25, cliffMultiplier = 2.0\<rparr>"
| "TIRE_PROFILES HARD =
     \<lparr>initialGrip = 0.94, degradationRate = 0.03, cliffLap = 40, cliffMultiplier = 1.8\<rparr>"
| "TIRE_PROFILES INTERMEDIATE =
     \<lparr>initialGrip = 0.95, degradationRate = 0.04, cliffLap = 30, cliffMultiplier = 2.0\<rparr>"
| "TIRE_PROFILES WET =
     \<lparr>initialGrip = 0.92, degradationRate = 0.035, cliffLap = 35, cliffMultiplier = 1.5\<rparr>"

fun WEATHER_DEGRADATION_MULTIPLIER :: "Weather \<Rightarrow> rat" where
  "WEATHER_DEGRADATION_MULTIPLIER cool = 0.85"
| "WEATHER_DEGRADATION_MULTIPLIER normal = 1.0"
| "WEATHER_DEGRADATION_MULTIPLIER hot = 1.25"
| "WEATHER_DEGRADATION_MULTIPLIER wet = 1.1"

record PaceClassEffect =
  lapTimeDelta :: rat
  overtakingAbility :: rat
  defenseAbility :: rat
  realisticCeiling :: int
  realisticFloor :: int
  typicalFinish :: int

fun PACE_CLASS_EFFECTS :: "PaceClass \<Rightarrow> PaceClassEffect" where
  "PACE_CLASS_EFFECTS front_runner =
     \<lparr>lapTimeDelta = - 1.5, overtakingAbility = 1.4, defenseAbility = 1.5,
      realisticCeiling = 1, realisticFloor = 6, typicalFinish = 3\<rparr>"
| "PACE_CLASS_EFFECTS midfield =
     \<lparr>lapTimeDelta = 0, overtakingAbility = 1.0, defenseAbility = 1.0,
      realisticCeiling = 5, realisticFloor = 14, typicalFinish = 9\<rparr>"
| "PACE_CLASS_EFFECTS backmarker =
     \<lparr>lapTimeDelta = 1.2, overtakingAbility = 0.6, defenseAbility = 0.7,
      realisticCeiling = 10, realisticFloor = 20, typicalFinish = 16\<rparr>"

record RiskProfileEffect =
  overtakingAggressiveness :: rat
  tireManagement :: rat
  pitStopEfficiency :: rat

fun RISK_PROFILE_EFFECTS :: "RiskProfile \<Rightarrow> RiskProfileEffect" where
  "RISK_PROFILE_EFFECTS conservative =
     \<lparr>overtakingAggressiveness = 0.7, tireManagement = 0.85, pitStopEfficiency = 0.98\<rparr>"
| "RISK_PROFILE_EFFECTS balanced =
     \<lparr>overtakingAggressiveness = 1.0, tireManagement = 1.0, pitStopEfficiency = 1.0\<rparr>"
| "RISK_PROFILE_EFFECTS aggressive =
     \<lparr>overtakingAggressiveness = 1.4, tireManagement = 1.2, pitStopEfficiency = 1.05\<rparr>"

section \<open>Helper functions of the simulation engine\<close>

text \<open>JavaScript's \<^verbatim>\<open>x || d\<close> on numbers: \<open>d\<close> replaces a zero (or missing) \<open>x\<close>.\<close>

definition or_default :: "rat \<Rightarrow> rat \<Rightarrow> rat" where
  "or_default x d = (if x = 0 then d else x)"

text \<open>JavaScript's \<^verbatim>\<open>%\<close> on integers: the remainder takes the sign of the dividend.\<close>

definition js_rem :: "int \<Rightarrow> int \<Rightarrow> int" where
  "js_rem a b = sgn a * (\<bar>a\<bar> mod \<bar>b\<bar>)"

definition calculateTireDegradation ::
  "TireCompound \<Rightarrow> int \<Rightarrow> Weather \<Rightarrow> RiskProfile \<Rightarrow> rat" where
  "calculateTireDegradation compound lapInStint weath risk =
     (let profile = TIRE_PROFILES compound;
          weatherMultiplier = or_default (WEATHER_DEGRADATION_MULTIPLIER weath) 1.0;
          riskEffect = tireManagement (RISK_PROFILE_EFFECTS risk);
          degradation0 = degradationRate profile * weatherMultiplier * riskEffect;
          degradation =
            (if lapInStint > cliffLap profile then
               let lapsAfterCliff = lapInStint - cliffLap profile
               in degradation0 +
                  (degradationRate profile * cliffMultiplier profile - degradationRate profile) *
                  of_int (min lapsAfterCliff 10) / 10
             else degradation0)
      in degradation * of_int lapInStint)"

definition calculateTireWear :: "int \<Rightarrow> TireCompound \<Rightarrow> rat" where
  "calculateTireWear lapInStint compound =
     (let profile = TIRE_PROFILES compound;
          baseWear = of_int lapInStint / (of_int (cliffLap profile) * 1.5)
      in if lapInStint > cliffLap profile then
           let extraWear = of_int (lapInStint - cliffLap profile) / of_int (cliffLap profile) * 0.5
           in min (baseWear + extraWear) 1.0
         else min baseWear 1.0)"

record OvertakeResult =
  newPosition :: int
  overtook :: bool
  wasOvertaken :: bool

fun trackDifficultyMultiplier :: "OvertakingDifficulty \<Rightarrow> rat" where
  "trackDifficultyMultiplier easy = 0.04"
| "trackDifficultyMultiplier medium = 0.025"
| "trackDifficultyMultiplier hard = 0.012"

definition simulateOvertaking ::
  "int \<Rightarrow> TrackProfile \<Rightarrow> PaceClass \<Rightarrow> RiskProfile \<Rightarrow> int \<Rightarrow> bool \<Rightarrow> int \<Rightarrow> OvertakeResult" where
  "simulateOvertaking currentPosition tp pace risk lapNo isFirstLap fieldSz =
     (let paceEffect = PACE_CLASS_EFFECTS pace;
          riskEffect = RISK_PROFILE_EFFECTS risk;
          atOrBeyondCeiling = (currentPosition \<le> realisticCeiling paceEffect);
          tdm = or_default (trackDifficultyMultiplier (overtakingDifficulty tp)) 0.025
      in if isFirstLap then
           let firstLapSeed = (of_int (js_rem (currentPosition * 47 + 13) 100) :: rat) / 100;
               potentialGain = (if currentPosition > 10 then 3 else if currentPosition > 5 then 2 else 1 :: int);
               potentialLoss = (if currentPosition < 5 then 2 else 1 :: int);
               gainThreshold = 0.3 * overtakingAbility paceEffect * overtakingAggressiveness riskEffect;
               lossThreshold = 0.15 / defenseAbility paceEffect
           in if firstLapSeed < gainThreshold \<and> \<not> atOrBeyondCeiling then
                let gain = min potentialGain (\<lfloor>firstLapSeed / gainThreshold * of_int potentialGain\<rfloor> + 1);
                    newPos = max (realisticCeiling paceEffect) (currentPosition - gain)
                in \<lparr>newPosition = newPos, overtook = (newPos < currentPosition), wasOvertaken = False\<rparr>
              else if firstLapSeed > 1 - lossThreshold then
                let loss = min potentialLoss 1;
                    newPos = min fieldSz (currentPosition + loss)
                in \<lparr>newPosition = newPos, overtook = False, wasOvertaken = (newPos > currentPosition)\<rparr>
              else \<lparr>newPosition = currentPosition, overtook = False, wasOvertaken = False\<rparr>
         else
           let seed = (of_int (js_rem (lapNo * 17 + currentPosition * 31) 100) :: rat) / 100;
               overtakeProb0 = tdm * overtakingAbility paceEffect * overtakingAggressiveness riskEffect;
               overtakeProb1 =
                 (if currentPosition \<le> realisticCeiling paceEffect + 2 then overtakeProb0 * 0.1
                  else if currentPosition \<le> realisticCeiling paceEffect + 4 then overtakeProb0 * 0.4
                  else overtakeProb0);
               overtakeProb =
                 (if currentPosition > typicalFinish paceEffect then overtakeProb1 * 1.3
                  else overtakeProb1);
               overtakenProb0 = tdm * 0.5 / defenseAbility paceEffect;
               overtakenProb1 =
                 (if currentPosition < typicalFinish paceEffect - 2 then overtakenProb0 * 1.5
                  else overtakenProb0);
               overtakenProb =
                 (if currentPosition \<ge> realisticFloor paceEffect then overtakenProb1 * 0.3
                  else overtakenProb1)
           in if seed < overtakeProb \<and> currentPosition > 1 \<and> \<not> atOrBeyondCeiling then
                let newPos = max (realisticCeiling paceEffect) (currentPosition - 1)
                in \<lparr>newPosition = newPos, overtook = (newPos < currentPosition), wasOvertaken = False\<rparr>
              else if seed > 1 - overtakenProb \<and> currentPosition < fieldSz then
                let newPos = min (realisticFloor paceEffect) (currentPosition + 1)
                in \<lparr>newPosition = newPos, overtook = False, wasOvertaken = (newPos > currentPosition)\<rparr>
              else \<lparr>newPosition = currentPosition, overtook = False, wasOvertaken = False\<rparr>)"

section \<open>The main simulation function\<close>

text \<open>
  The function-scoped mutable variables of \<^verbatim>\<open>simulateRace\<close> are a record that every lap
  and every stint passes on: \<^verbatim>\<open>currentPosition\<close>, \<^verbatim>\<open>currentLap\<close>, the arrays
  \<^verbatim>\<open>lapData\<close> and \<^verbatim>\<open>stintMetrics\<close> being appended to, and the per-stint accumulator
  \<^verbatim>\<open>stintDegradationLoss\<close>.
\<close>

record RaceState =
  currentPosition :: int
  currentLap :: int
  stintDegradationLoss :: rat
  st_lapData :: "LapData list"
  st_stintMetrics :: "StintMetrics list"

text \<open>The body of the inner \<^verbatim>\<open>for\<close> loop: one simulated lap.\<close>

definition simulateLap ::
  "RaceConfig \<Rightarrow> CarProfile \<Rightarrow> TrackProfile \<Rightarrow> Stint \<Rightarrow> bool \<Rightarrow> int \<Rightarrow> RaceState \<Rightarrow> RaceState" where
  "simulateLap race car tp stint isLastStint lapInStint st =
     (let curLap = currentLap st + 1;
          isFirstLap = (curLap = 1);
          isPitLap = (lapInStint = lapsInStint stint \<and> \<not> isLastStint);
          degradation = calculateTireDegradation (tireCompound stint) lapInStint
                          (weather race) (riskProfile car);
          event0 = (if isFirstLap then Some start else None);
          overtakeResult = simulateOvertaking (currentPosition st) tp (paceClass car)
                             (riskProfile car) curLap isFirstLap (fieldSize race);
          event1 = (if overtook overtakeResult then Some overtake
                    else if wasOvertaken overtakeResult then Some overtaken
                    else event0);
          pos = newPosition overtakeResult;
          event2 = (if isPitLap then Some pit_stop else event1);
          wear = calculateTireWear lapInStint (tireCompound stint)
      in st\<lparr>currentPosition := pos,
            currentLap := curLap,
            stintDegradationLoss := stintDegradationLoss st + degradation,
            st_lapData := st_lapData st @
              [\<lparr>lapNumber = curLap, ldStintNumber = stintNumber stint,
                ldTireCompound = tireCompound stint, tireWear = wear,
                position = pos, event = event2\<rparr>]\<rparr>)"

text \<open>\<^verbatim>\<open>for (let lapInStint = 1; lapInStint <= stint.lapsInStint; lapInStint++)\<close>\<close>

function lapLoop ::
  "RaceConfig \<Rightarrow> CarProfile \<Rightarrow> TrackProfile \<Rightarrow> Stint \<Rightarrow> bool \<Rightarrow> int \<Rightarrow> RaceState \<Rightarrow> RaceState" where
  "lapLoop race car tp stint isLastStint lapInStint st =
     (if lapInStint \<le> lapsInStint stint
      then lapLoop race car tp stint isLastStint (lapInStint + 1)
             (simulateLap race car tp stint isLastStint lapInStint st)
      else st)"
  by pat_completeness auto
termination
  by (relation "measure (\<lambda>(race, car, tp, stint, isLastStint, lapInStint, st).
                   nat (lapsInStint stint + 1 - lapInStint))") auto

declare lapLoop.simps [simp del]

text \<open>The body of the outer loop: one stint and its metrics.\<close>

definition simulateStint ::
  "RaceConfig \<Rightarrow> CarProfile \<Rightarrow> Strategy \<Rightarrow> TrackProfile \<Rightarrow> nat \<Rightarrow> RaceState \<Rightarrow> RaceState" where
  "simulateStint race car strat tp stintIdx st =
     (let stint = stints strat ! stintIdx;
          isLastStint = (int stintIdx = int (length (stints strat)) - 1);
          stintStartPosition = currentPosition st;
          st1 = lapLoop race car tp stint isLastStint 1 (st\<lparr>stintDegradationLoss := 0\<rparr>)
      in st1\<lparr>st_stintMetrics := st_stintMetrics st1 @
              [\<lparr>smStintNumber = stintNumber stint, smTireCompound = tireCompound stint,
                smTotalLaps = lapsInStint stint,
                totalDegradationLoss = stintDegradationLoss st1,
                startPosition = stintStartPosition,
                endPosition = currentPosition st1\<rparr>]\<rparr>)"

text \<open>\<^verbatim>\<open>for (let stintIdx = 0; stintIdx < strategy.stints.length; stintIdx++)\<close>\<close>

function stintLoop ::
  "RaceConfig \<Rightarrow> CarProfile \<Rightarrow> Strategy \<Rightarrow> TrackProfile \<Rightarrow> nat \<Rightarrow> RaceState \<Rightarrow> RaceState" where
  "stintLoop race car strat tp stintIdx st =
     (if stintIdx < length (stints strat)
      then stintLoop race car strat tp (stintIdx + 1) (simulateStint race car strat tp stintIdx st)
      else st)"
  by pat_completeness auto
termination
  by (relation "measure (\<lambda>(race, car, strat, tp, stintIdx, st).
                   length (stints strat) - stintIdx)") auto

declare stintLoop.simps [simp del]

definition initialState :: "CarProfile \<Rightarrow> RaceState" where
  "initialState car =
     \<lparr>currentPosition = startingGridPosition car, currentLap = 0,
      stintDegradationLoss = 0, st_lapData = [], st_stintMetrics = []\<rparr>"

definition simulateRace ::
  "RaceConfig \<Rightarrow> CarProfile \<Rightarrow> Strategy \<Rightarrow> TrackProfile \<Rightarrow> SimulationResult" where
  "simulateRace race car strat tp =
     (let st = stintLoop race car strat tp 0 (initialState car);
          paceEffectFinal = PACE_CLASS_EFFECTS (paceClass car);
          predicted0 = max (realisticCeiling paceEffectFinal) (currentPosition st);
          predicted = min (realisticFloor paceEffectFinal) predicted0;
          gained = startingGridPosition car - predicted;
          variance = (if riskProfile car = aggressive then 2
                      else if riskProfile car = conservative then 1 else 1 :: int);
          positionRange =
            \<lparr>range_min = max (realisticCeiling paceEffectFinal) (predicted - variance),
             range_max = min (min (fieldSize race) (realisticFloor paceEffectFinal))
                             (predicted + variance + 1)\<rparr>
      in \<lparr>predictedFinishPosition = predicted,
          predictedPositionRange = positionRange,
          positionsGained = gained,
          stintMetrics = st_stintMetrics st,
          lapData = st_lapData st,
          totalPitStops = int (length (stints strat)) - 1\<rparr>)"

section \<open>Strings and regular expressions of the JavaScript runtime\<close>

text \<open>
  A JavaScript string is a \<open>string\<close> here: each \<open>char\<close> stands for one UTF-16 code unit
  below 256. On these, the white space of \<^verbatim>\<open>trim\<close>, \<^verbatim>\<open>trimEnd\<close> and \<^verbatim>\<open>\s\<close> is
  TAB, LF, VT, FF, CR, SPACE and NBSP.
\<close>

definition code_unit :: "char \<Rightarrow> nat" where
  "code_unit c = of_char c"

definition is_space :: "char \<Rightarrow> bool" where
  "is_space c \<longleftrightarrow> code_unit c \<in> set [0x09, 0x0A, 0x0B, 0x0C, 0x0D, 0x20, 0xA0]"

definition is_digit :: "char \<Rightarrow> bool" where
  "is_digit c \<longleftrightarrow> 0x30 \<le> code_unit c \<and> code_unit c \<le> 0x39"

definition is_upper :: "char \<Rightarrow> bool" where
  "is_upper c \<longleftrightarrow> 0x41 \<le> code_unit c \<and> code_unit c \<le> 0x5A"

definition is_lower :: "char \<Rightarrow> bool" where
  "is_lower c \<longleftrightarrow> 0x61 \<le> code_unit c \<and> code_unit c \<le> 0x7A"

definition is_word :: "char \<Rightarrow> bool" where
  "is_word c \<longleftrightarrow> is_upper c \<or> is_lower c \<or> is_digit c \<or> c = CHR ''_''"

definition trimEnd :: "string \<Rightarrow> string" where
  "trimEnd s = rev (dropWhile is_space (rev s))"

definition trim :: "string \<Rightarrow> string" where
  "trim s = dropWhile is_space (trimEnd s)"

text \<open>\<^verbatim>\<open>s.split(sep)\<close> for a one-character separator; the result is never empty.\<close>

fun split_on :: "char \<Rightarrow> string \<Rightarrow> string list" where
  "split_on sep [] = [[]]"
| "split_on sep (c # cs) =
     (if c = sep then [] # split_on sep cs
      else (case split_on sep cs of [] \<Rightarrow> [[c]] | l # ls \<Rightarrow> (c # l) # ls))"

text \<open>
  Case mapping of the letters below 256: the ASCII letters and the accented Latin-1
  letters. Three characters have an upper case outside this range (\<^verbatim>\<open>toUpperCase\<close> of
  U+00DF is two letters S, of U+00B5 is U+039C, of U+00FF is U+0178); U+00DF is mapped as
  JavaScript does, the other two are left as they are. None of the three can turn a line
  into one of the keywords the parser compares with.
\<close>

definition lower_char :: "char \<Rightarrow> char" where
  "lower_char c =
     (if is_upper c \<or> (0xC0 \<le> code_unit c \<and> code_unit c \<le> 0xDE \<and> code_unit c \<noteq> 0xD7)
      then char_of (code_unit c + 32) else c)"

definition upper_char :: "char \<Rightarrow> char" where
  "upper_char c =
     (if is_lower c \<or> (0xE0 \<le> code_unit c \<and> code_unit c \<le> 0xFE \<and> code_unit c \<noteq> 0xF7)
      then char_of (code_unit c - 32) else c)"

definition toLowerCase :: "string \<Rightarrow> string" where
  "toLowerCase s = map lower_char s"

definition toUpperCase :: "string \<Rightarrow> string" where
  "toUpperCase s = concat (map (\<lambda>c. if c = CHR 0xDF then ''SS'' else [upper_char c]) s)"

text \<open>\<^verbatim>\<open>parseInt(s, 10)\<close> on a string of decimal digits (what \<^verbatim>\<open>(\d+)\<close> captures).\<close>

definition digit_val :: "char \<Rightarrow> int" where
  "digit_val c = int (code_unit c) - 48"

definition parseInt :: "string \<Rightarrow> int" where
  "parseInt s = foldl (\<lambda>acc c. acc * 10 + digit_val c) 0 s"

text \<open>
  \<^verbatim>\<open>parseFloat(s)\<close> on a string of digits and dots (what \<^verbatim>\<open>([\d.]+)\<close> captures): the
  longest prefix that is a decimal literal, \<open>None\<close> (NaN) when there is none. The value
  is the exact decimal; JavaScript rounds it to the nearest double.
\<close>

definition parseFloat :: "string \<Rightarrow> rat option" where
  "parseFloat s =
     (let intPart = takeWhile is_digit s;
          rest = dropWhile is_digit s;
          fracPart = (case rest of [] \<Rightarrow> [] | c # cs \<Rightarrow> if c = CHR ''.'' then takeWhile is_digit cs else [])
      in if intPart = [] \<and> fracPart = [] then None
         else Some (of_int (parseInt intPart) + of_int (parseInt fracPart) / 10 ^ length fracPart))"

text \<open>
  Comparisons of a parsed number with 0 and 1. NaN compares false. Rounding to the nearest
  double (ties to even) takes every decimal up to \<open>1 + 2\<^sup>-\<^sup>5\<^sup>3\<close> to a double that is at
  most 1, and every larger one to a double above 1.
\<close>

definition num_lt_0 :: "rat option \<Rightarrow> bool" where
  "num_lt_0 x = (case x of None \<Rightarrow> False | Some v \<Rightarrow> v < 0)"

definition num_gt_1 :: "rat option \<Rightarrow> bool" where
  "num_gt_1 x = (case x of None \<Rightarrow> False | Some v \<Rightarrow> v > 1 + 1 / 2 ^ 53)"

text \<open>\<^verbatim>\<open>String(n)\<close> for an integer (below \<open>10\<^sup>2\<^sup>1\<close> in magnitude, where JavaScript prints all digits).\<close>

fun show_nat :: "nat \<Rightarrow> string" where
  "show_nat n =
     (if n < 10 then [char_of (48 + n)]
      else show_nat (n div 10) @ [char_of (48 + n mod 10)])"

definition show_int :: "int \<Rightarrow> string" where
  "show_int i = (if i < 0 then CHR ''-'' # show_nat (nat (- i)) else show_nat (nat i))"

subsection \<open>The fragment of regular expressions the parser uses\<close>

text \<open>
  All nine patterns are anchored at both ends, carry the \<^verbatim>\<open>i\<close> flag, repeat only
  character classes and have no nested capture groups. \<open>rx_run\<close> lists, in the
  backtracking order of the JavaScript matcher (greedy repetition first, left alternative
  first), every way to match a prefix: the rest of the input and the captures so far.
  The first way that consumes the whole input is the match.
\<close>

datatype cls = Space | NonSpace | Digit | Word | NotQuote | DigitOrDot

fun in_cls :: "cls \<Rightarrow> char \<Rightarrow> bool" where
  "in_cls Space c = is_space c"
| "in_cls NonSpace c = (\<not> is_space c)"
| "in_cls Digit c = is_digit c"
| "in_cls Word c = is_word c"
| "in_cls NotQuote c = (c \<noteq> CHR 0x22)"
| "in_cls DigitOrDot c = (is_digit c \<or> c = CHR ''.'')"

datatype rx = Lit string | OneOrMore cls | ZeroOrMore cls | Group rx | Seq rx rx | Alt rx rx | Opt rx

text \<open>With the \<^verbatim>\<open>i\<close> flag an ASCII letter of the pattern matches both of its cases.\<close>

definition fold_case :: "char \<Rightarrow> char" where
  "fold_case c = (if is_lower c then char_of (code_unit c - 32) else c)"

fun rx_run :: "rx \<Rightarrow> string \<times> string list \<Rightarrow> (string \<times> string list) list" where
  "rx_run (Lit l) (s, caps) =
     (if length l \<le> length s \<and> map fold_case (take (length l) s) = map fold_case l
      then [(drop (length l) s, caps)] else [])"
| "rx_run (OneOrMore c) (s, caps) =
     map (\<lambda>n. (drop n s, caps)) (rev [1 ..< Suc (length (takeWhile (in_cls c) s))])"
| "rx_run (ZeroOrMore c) (s, caps) =
     map (\<lambda>n. (drop n s, caps)) (rev [0 ..< Suc (length (takeWhile (in_cls c) s))])"
| "rx_run (Group r) (s, caps) =
     map (\<lambda>(s', caps'). (s', caps' @ [take (length s - length s') s])) (rx_run r (s, caps))"
| "rx_run (Seq a b) st = concat (map (rx_run b) (rx_run a st))"
| "rx_run (Alt a b) st = rx_run a st @ rx_run b st"
| "rx_run (Opt r) st = rx_run r st @ [st]"

text \<open>\<^verbatim>\<open>s.match(/^...$/i)\<close>: the captured groups, or \<open>None\<close> for \<^verbatim>\<open>null\<close>.\<close>

definition rx_match :: "rx \<Rightarrow> string \<Rightarrow> string list option" where
  "rx_match r s =
     (case filter (\<lambda>(rest, caps). rest = []) (rx_run r (s, [])) of
        [] \<Rightarrow> None
      | (rest, caps) # _ \<Rightarrow> Some caps)"

fun seqs :: "rx list \<Rightarrow> rx" where
  "seqs [] = Lit []"
| "seqs [r] = r"
| "seqs (r # rs) = Seq r (seqs rs)"

definition match1 :: "rx \<Rightarrow> string \<Rightarrow> string option" where
  "match1 r s = (case rx_match r s of Some [a] \<Rightarrow> Some a | _ \<Rightarrow> None)"

definition match2 :: "rx \<Rightarrow> string \<Rightarrow> (string \<times> string) option" where
  "match2 r s = (case rx_match r s of Some [a, b] \<Rightarrow> Some (a, b) | _ \<Rightarrow> None)"

definition match3 :: "rx \<Rightarrow> string \<Rightarrow> (string \<times> string \<times> string) option" where
  "match3 r s = (case rx_match r s of Some [a, b, c] \<Rightarrow> Some (a, b, c) | _ \<Rightarrow> None)"

definition match4 :: "rx \<Rightarrow> string \<Rightarrow> (string \<times> string \<times> string \<times> string) option" where
  "match4 r s = (case rx_match r s of Some [a, b, c, d] \<Rightarrow> Some (a, b, c, d) | _ \<Rightarrow> None)"

text \<open>Three groups and an optional fourth (\<^verbatim>\<open>undefined\<close> when it took no part).\<close>

definition match3opt :: "rx \<Rightarrow> string \<Rightarrow> (string \<times> string \<times> string \<times> string option) option" where
  "match3opt r s =
     (case rx_match r s of
        Some [a, b, c] \<Rightarrow> Some (a, b, c, None)
      | Some [a, b, c, d] \<Rightarrow> Some (a, b, c, Some d)
      | _ \<Rightarrow> None)"

section \<open>The strategy parser (\<^verbatim>\<open>parseStrategy.ts\<close>, in \<^verbatim>\<open>src/unnamed/part_003\<close>)\<close>

subsection \<open>Validation helpers\<close>

definition VALID_WEATHER :: "string list" where
  "VALID_WEATHER = [''cool'', ''normal'', ''hot'', ''wet'']"

definition VALID_PACE_CLASS :: "string list" where
  "VALID_PACE_CLASS = [''front_runner'', ''midfield'', ''backmarker'']"

definition VALID_RISK_PROFILE :: "string list" where
  "VALID_RISK_PROFILE = [''conservative'', ''balanced'', ''aggressive'']"

definition VALID_OVERTAKING :: "string list" where
  "VALID_OVERTAKING = [''easy'', ''medium'', ''hard'']"

definition VALID_AERO :: "string list" where
  "VALID_AERO = [''downforce_reliant'', ''drag_reliant'', ''balanced'']"

definition VALID_TIRES :: "string list" where
  "VALID_TIRES = [''SOFT'', ''MEDIUM'', ''HARD'', ''INTERMEDIATE'', ''WET'']"

definition isValidWeather :: "string \<Rightarrow> bool" where
  "isValidWeather s \<longleftrightarrow> s \<in> set VALID_WEATHER"

definition isValidPaceClass :: "string \<Rightarrow> bool" where
  "isValidPaceClass s \<longleftrightarrow> s \<in> set VALID_PACE_CLASS"

definition isValidRiskProfile :: "string \<Rightarrow> bool" where
  "isValidRiskProfile s \<longleftrightarrow> s \<in> set VALID_RISK_PROFILE"

definition isValidOvertaking :: "string \<Rightarrow> bool" where
  "isValidOvertaking s \<longleftrightarrow> s \<in> set VALID_OVERTAKING"

definition isValidAero :: "string \<Rightarrow> bool" where
  "isValidAero s \<longleftrightarrow> s \<in> set VALID_AERO"

definition isValidTire :: "string \<Rightarrow> bool" where
  "isValidTire s \<longleftrightarrow> s \<in> set VALID_TIRES"

text \<open>
  The casts \<^verbatim>\<open>as Weather\<close>, \<^verbatim>\<open>as PaceClass\<close>, ... of the source are unchecked: at run
  time the value stays the string it was. The parser state therefore keeps these fields
  as strings, and the value of the union type is read off where the finished document
  is put together.
\<close>

definition asWeather :: "string \<Rightarrow> Weather option" where
  "asWeather s =
     (if s = ''cool'' then Some cool else if s = ''normal'' then Some normal
      else if s = ''hot'' then Some hot else if s = ''wet'' then Some wet else None)"

definition asPaceClass :: "string \<Rightarrow> PaceClass option" where
  "asPaceClass s =
     (if s = ''front_runner'' then Some front_runner else if s = ''midfield'' then Some midfield
      else if s = ''backmarker'' then Some backmarker else None)"

definition asRiskProfile :: "string \<Rightarrow> RiskProfile option" where
  "asRiskProfile s =
     (if s = ''conservative'' then Some conservative else if s = ''balanced'' then Some balanced
      else if s = ''aggressive'' then Some aggressive else None)"

definition asOvertaking :: "string \<Rightarrow> OvertakingDifficulty option" where
  "asOvertaking s =
     (if s = ''easy'' then Some easy else if s = ''medium'' then Some medium
      else if s = ''hard'' then Some hard else None)"

definition asAero :: "string \<Rightarrow> AeroClassification option" where
  "asAero s =
     (if s = ''downforce_reliant'' then Some downforce_reliant
      else if s = ''drag_reliant'' then Some drag_reliant
      else if s = ''balanced'' then Some aero_balanced else None)"

definition asTire :: "string \<Rightarrow> TireCompound option" where
  "asTire s =
     (if s = ''SOFT'' then Some SOFT else if s = ''MEDIUM'' then Some MEDIUM
      else if s = ''HARD'' then Some HARD else if s = ''INTERMEDIATE'' then Some INTERMEDIATE
      else if s = ''WET'' then Some WET else None)"

subsection \<open>Regex patterns\<close>

definition RACE_PATTERN :: rx where
  "RACE_PATTERN = seqs [Lit ''RACE'', OneOrMore Space, Group (OneOrMore NonSpace), OneOrMore Space,
     Lit ''LAPS='', Group (OneOrMore Digit), OneOrMore Space, Lit ''WEATHER='', Group (OneOrMore Word),
     OneOrMore Space, Lit ''FIELD='', Group (OneOrMore Digit)]"

definition CAR_PATTERN :: rx where
  "CAR_PATTERN = seqs [Lit ''CAR'', OneOrMore Space, Lit ''START=P'', Group (OneOrMore Digit), OneOrMore Space,
     Lit ''PACE='', Group (OneOrMore Word), OneOrMore Space, Lit ''RISK='', Group (OneOrMore Word),
     Opt (seqs [OneOrMore Space, Lit ''TARGET='',
                Alt (Seq (Lit ''P'') (Group (OneOrMore Digit))) (Lit ''NONE'')])]"

definition TRACK_AERO_PATTERN :: rx where
  "TRACK_AERO_PATTERN = seqs [Lit ''TRACK'', OneOrMore Space, Lit ''AERO='', Group (OneOrMore Word)]"

definition TRACK_OVERTAKING_PATTERN :: rx where
  "TRACK_OVERTAKING_PATTERN = seqs [Lit ''TRACK'', OneOrMore Space, Lit ''OVERTAKING='',
     Group (OneOrMore Word), OneOrMore Space, Lit ''CHANCE='', Group (OneOrMore DigitOrDot)]"

definition STRATEGY_START_PATTERN :: rx where
  "STRATEGY_START_PATTERN = seqs [Lit ''STRATEGY'', OneOrMore Space, Lit [CHR 0x22],
     Group (OneOrMore NotQuote), Lit [CHR 0x22]]"

definition STINT_PATTERN :: rx where
  "STINT_PATTERN = seqs [ZeroOrMore Space, Lit ''STINT'', OneOrMore Space, Group (OneOrMore Digit), OneOrMore Space,
     Lit ''TIRE='', Group (OneOrMore Word), OneOrMore Space, Lit ''LAPS='', Group (OneOrMore Digit)]"

definition TURN_PATTERN :: rx where
  "TURN_PATTERN = seqs [ZeroOrMore Space, Lit ''TURN'', OneOrMore Space, Group (OneOrMore Digit), OneOrMore Space,
     Lit ''NAME='', Lit [CHR 0x22], Group (OneOrMore NotQuote), Lit [CHR 0x22], OneOrMore Space,
     Lit ''RISK='', Group (OneOrMore NonSpace), OneOrMore Space,
     Lit ''NOTE='', Lit [CHR 0x22], Group (OneOrMore NotQuote), Lit [CHR 0x22]]"

definition PREVIOUS_WINNER_YEAR_PATTERN :: rx where
  "PREVIOUS_WINNER_YEAR_PATTERN = seqs [ZeroOrMore Space, Lit ''YEAR='', Group (OneOrMore Digit), OneOrMore Space,
     Lit ''LABEL='', Lit [CHR 0x22], Group (OneOrMore NotQuote), Lit [CHR 0x22]]"

definition PREVIOUS_WINNER_STINT_PATTERN :: rx where
  "PREVIOUS_WINNER_STINT_PATTERN = seqs [ZeroOrMore Space, Lit ''TIRE='', Group (OneOrMore Word), OneOrMore Space,
     Lit ''LAPS='', Group (OneOrMore Digit)]"

subsection \<open>Parser state\<close>

text \<open>
  A diagnostic carries its line and section; the message text is not modelled.
\<close>

record DSLParseError =
  line :: nat
  sectionName :: "string option"

record DSLParseResult =
  success :: bool
  data :: "ParsedDSL option"
  errors :: "DSLParseError list"
  warnings :: "string list"
  rawDSL :: string

text \<open>
  The closures of \<^verbatim>\<open>parseStrategyDSL\<close> share the line cursor and the diagnostics list;
  each section parser takes them and returns them together with the variable that it
  alone assigns.
\<close>

record Cursor =
  lineIndex :: nat
  errorList :: "DSLParseError list"

record RaceConfigCast =
  rc_trackName :: string
  rc_totalLaps :: int
  rc_weather :: string
  rc_fieldSize :: int

record CarProfileCast =
  cp_startingGridPosition :: int
  cp_paceClass :: string
  cp_riskProfile :: string
  cp_targetMinPosition :: "int option"

record StintCast =
  sc_stintNumber :: int
  sc_tireCompound :: string
  sc_lapsInStint :: int

record StrategyCast =
  sc_label :: string
  sc_stints :: "StintCast list"

record PreviousWinnerStintCast =
  pw_tireCompound :: string
  pw_laps :: int

record PreviousWinnerCast =
  pw_year :: int
  pw_label :: string
  pw_stints :: "PreviousWinnerStintCast list"

definition addError :: "string option \<Rightarrow> Cursor \<Rightarrow> Cursor" where
  "addError sect cur =
     cur\<lparr>errorList := errorList cur @ [\<lparr>line = lineIndex cur + 1, sectionName = sect\<rparr>]\<rparr>"

definition advance :: "Cursor \<Rightarrow> Cursor" where
  "advance cur = cur\<lparr>lineIndex := lineIndex cur + 1\<rparr>"

function skipEmpty :: "string list \<Rightarrow> Cursor \<Rightarrow> Cursor" where
  "skipEmpty lines cur =
     (if lineIndex cur < length lines \<and> trim (lines ! lineIndex cur) = []
      then skipEmpty lines (advance cur) else cur)"
  by pat_completeness auto
termination
  by (relation "measure (\<lambda>(lines, cur). length lines - lineIndex cur)")
     (auto simp: advance_def)

declare skipEmpty.simps [simp del]

subsection \<open>Section parsers\<close>

definition parseRace :: "string list \<Rightarrow> Cursor \<Rightarrow> Cursor \<times> RaceConfigCast option" where
  "parseRace lines cur0 =
     (let cur = skipEmpty lines cur0
      in if lineIndex cur \<ge> length lines then (addError (Some ''RACE'') cur, None)
         else
           let l = trim (lines ! lineIndex cur)
           in case match4 RACE_PATTERN l of
                None \<Rightarrow> (advance (addError (Some ''RACE'') cur), None)
              | Some (trackNm, lapsStr, weath, fieldStr) \<Rightarrow>
                  let laps = parseInt lapsStr;
                      field = parseInt fieldStr;
                      cur1 = (if \<not> isValidWeather (toLowerCase weath)
                              then addError (Some ''RACE'') cur else cur);
                      cur2 = (if laps < 1 \<or> laps > 100
                              then addError (Some ''RACE'') cur1 else cur1);
                      cur3 = (if field < 2 \<or> field > 30
                              then addError (Some ''RACE'') cur2 else cur2)
                  in (advance cur3,
                      Some \<lparr>rc_trackName = toUpperCase trackNm, rc_totalLaps = laps,
                            rc_weather = toLowerCase weath, rc_fieldSize = field\<rparr>))"

definition parseCar :: "string list \<Rightarrow> Cursor \<Rightarrow> Cursor \<times> CarProfileCast option" where
  "parseCar lines cur0 =
     (let cur = skipEmpty lines cur0
      in if lineIndex cur \<ge> length lines then (addError (Some ''CAR'') cur, None)
         else
           let l = trim (lines ! lineIndex cur)
           in case match3opt CAR_PATTERN l of
                None \<Rightarrow> (advance (addError (Some ''CAR'') cur), None)
              | Some (startStr, pace, risk, targetStr) \<Rightarrow>
                  let startPos = parseInt startStr;
                      target = map_option parseInt targetStr;
                      cur1 = (if \<not> isValidPaceClass (toLowerCase pace)
                              then addError (Some ''CAR'') cur else cur);
                      cur2 = (if \<not> isValidRiskProfile (toLowerCase risk)
                              then addError (Some ''CAR'') cur1 else cur1)
                  in (advance cur2,
                      Some \<lparr>cp_startingGridPosition = startPos, cp_paceClass = toLowerCase pace,
                            cp_riskProfile = toLowerCase risk, cp_targetMinPosition = target\<rparr>))"

definition parseTrack ::
  "string list \<Rightarrow> Cursor \<Rightarrow>
     Cursor \<times> AeroClassification option \<times> OvertakingDifficulty option \<times> rat option option" where
  "parseTrack lines cur0 =
     (let cur = skipEmpty lines cur0
      in if lineIndex cur \<ge> length lines then (addError (Some ''TRACK'') cur, None, None, None)
         else
           let l = trim (lines ! lineIndex cur);
               (cur1, trackAero) =
                 (case match1 TRACK_AERO_PATTERN l of
                    None \<Rightarrow> (addError (Some ''TRACK'') cur, None)
                  | Some a \<Rightarrow>
                      let aero = toLowerCase a
                      in if \<not> isValidAero aero then (addError (Some ''TRACK'') cur, None)
                         else (cur, asAero aero));
               cur2 = skipEmpty lines (advance cur1)
           in if lineIndex cur2 \<ge> length lines
              then (addError (Some ''TRACK'') cur2, trackAero, None, None)
              else
                let l2 = trim (lines ! lineIndex cur2);
                    (cur3, trackOvertaking, trackChance) =
                      (case match2 TRACK_OVERTAKING_PATTERN l2 of
                         None \<Rightarrow> (addError (Some ''TRACK'') cur2, None, None)
                       | Some (ov, ch) \<Rightarrow>
                           let overtaking = toLowerCase ov;
                               chance = parseFloat ch;
                               (cur2a, tOv) =
                                 (if \<not> isValidOvertaking overtaking
                                  then (addError (Some ''TRACK'') cur2, None)
                                  else (cur2, asOvertaking overtaking));
                               (cur2b, tCh) =
                                 (if num_lt_0 chance \<or> num_gt_1 chance
                                  then (addError (Some ''TRACK'') cur2a, None)
                                  else (cur2a, Some chance))
                           in (cur2b, tOv, tCh))
                in (advance cur3, trackAero, trackOvertaking, trackChance))"

text \<open>The \<^verbatim>\<open>while\<close> loop of \<^verbatim>\<open>parseStrategy\<close> that reads stints until \<^verbatim>\<open>END\<close>.\<close>

function parseStints :: "string list \<Rightarrow> Cursor \<Rightarrow> StintCast list \<Rightarrow> Cursor \<times> StintCast list" where
  "parseStints lines cur acc =
     (if lineIndex cur < length lines then
        let l = trim (lines ! lineIndex cur)
        in if toUpperCase l = ''END'' then (advance cur, acc)
           else if l = [] then parseStints lines (advance cur) acc
           else case match3 STINT_PATTERN l of
             None \<Rightarrow> parseStints lines (advance (addError (Some ''STRATEGY'') cur)) acc
           | Some (numStr, tire, lapsStr) \<Rightarrow>
             let stintNum = parseInt numStr;
                 laps = parseInt lapsStr;
                 tireUpper = toUpperCase tire;
                 cur1 = (if \<not> isValidTire tireUpper
                         then addError (Some ''STRATEGY'') cur else cur);
                 cur2 = (if laps < 1 then addError (Some ''STRATEGY'') cur1 else cur1)
             in parseStints lines (advance cur2)
                  (acc @ [\<lparr>sc_stintNumber = stintNum, sc_tireCompound = tireUpper,
                           sc_lapsInStint = laps\<rparr>])
      else (cur, acc))"
  by pat_completeness auto
termination
  by (relation "measure (\<lambda>(lines, cur, acc). length lines - lineIndex cur)")
     (auto simp: advance_def addError_def split: prod.splits)

declare parseStints.simps [simp del]

definition parseStrategy :: "string list \<Rightarrow> Cursor \<Rightarrow> Cursor \<times> StrategyCast option" where
  "parseStrategy lines cur0 =
     (let cur = skipEmpty lines cur0
      in if lineIndex cur \<ge> length lines then (addError (Some ''STRATEGY'') cur, None)
         else
           let l = trim (lines ! lineIndex cur)
           in case match1 STRATEGY_START_PATTERN l of
                None \<Rightarrow> (advance (addError (Some ''STRATEGY'') cur), None)
              | Some lbl \<Rightarrow>
                  let (cur1, stnts) = parseStints lines (advance cur) [];
                      cur2 = (if length stnts = 0
                              then addError (Some ''STRATEGY'') cur1 else cur1)
                  in (cur2, Some \<lparr>sc_label = lbl, sc_stints = stnts\<rparr>))"

text \<open>The \<^verbatim>\<open>while\<close> loop of \<^verbatim>\<open>parseCriticalTurns\<close>.\<close>

function parseTurns :: "string list \<Rightarrow> Cursor \<Rightarrow> CriticalTurn list \<Rightarrow> Cursor \<times> CriticalTurn list" where
  "parseTurns lines cur acc =
     (if lineIndex cur < length lines then
        let l = trim (lines ! lineIndex cur)
        in if toUpperCase l = ''END'' then (advance cur, acc)
           else if l = [] then parseTurns lines (advance cur) acc
           else case match4 TURN_PATTERN l of
             None \<Rightarrow> parseTurns lines (advance (addError (Some ''CRITICAL_TURNS'') cur)) acc
           | Some (numStr, nm, riskStr, nt) \<Rightarrow>
             let turnNum = parseInt numStr;
                 tags = map (\<lambda>t. toLowerCase (trim t)) (split_on (CHR '','') riskStr)
             in parseTurns lines (advance cur)
                  (acc @ [\<lparr>turnNumber = turnNum, turnName = nm, riskTags = tags,
                           turnNote = nt\<rparr>])
      else (cur, acc))"
  by pat_completeness auto
termination
  by (relation "measure (\<lambda>(lines, cur, acc). length lines - lineIndex cur)")
     (auto simp: advance_def addError_def split: prod.splits)

declare parseTurns.simps [simp del]

definition parseCriticalTurns :: "string list \<Rightarrow> Cursor \<Rightarrow> Cursor \<times> CriticalTurn list" where
  "parseCriticalTurns lines cur0 =
     (let cur = skipEmpty lines cur0
      in if lineIndex cur \<ge> length lines then (cur, [])
         else
           let l = trim (lines ! lineIndex cur)
           in if toUpperCase l \<noteq> ''CRITICAL_TURNS'' then (cur, [])
              else parseTurns lines (advance cur) [])"

text \<open>
  \<^verbatim>\<open>while (lineIndex < lines.length && lines[lineIndex].trim().toUpperCase() !== 'END')\<close>
\<close>

function skipToEnd :: "string list \<Rightarrow> Cursor \<Rightarrow> Cursor" where
  "skipToEnd lines cur =
     (if lineIndex cur < length lines \<and> toUpperCase (trim (lines ! lineIndex cur)) \<noteq> ''END''
      then skipToEnd lines (advance cur) else cur)"
  by pat_completeness auto
termination
  by (relation "measure (\<lambda>(lines, cur). length lines - lineIndex cur)")
     (auto simp: advance_def)

declare skipToEnd.simps [simp del]

text \<open>The \<^verbatim>\<open>while\<close> loop of \<^verbatim>\<open>parsePreviousWinner\<close> that reads the winner's stints.\<close>

function parsePwStints ::
  "string list \<Rightarrow> Cursor \<Rightarrow> PreviousWinnerStintCast list
     \<Rightarrow> Cursor \<times> PreviousWinnerStintCast list" where
  "parsePwStints lines cur acc =
     (if lineIndex cur < length lines then
        let l = trim (lines ! lineIndex cur)
        in if toUpperCase l = ''END'' then (advance cur, acc)
           else if l = [] then parsePwStints lines (advance cur) acc
           else case match2 PREVIOUS_WINNER_STINT_PATTERN l of
             None \<Rightarrow> parsePwStints lines (advance (addError (Some ''PREVIOUS_WINNER'') cur)) acc
           | Some (tire, lapsStr) \<Rightarrow>
             let tireUpper = toUpperCase tire;
                 laps = parseInt lapsStr;
                 cur1 = (if \<not> isValidTire tireUpper
                         then addError (Some ''PREVIOUS_WINNER'') cur else cur)
             in parsePwStints lines (advance cur1)
                  (acc @ [\<lparr>pw_tireCompound = tireUpper, pw_laps = laps\<rparr>])
      else (cur, acc))"
  by pat_completeness auto
termination
  by (relation "measure (\<lambda>(lines, cur, acc). length lines - lineIndex cur)")
     (auto simp: advance_def addError_def split: prod.splits)

declare parsePwStints.simps [simp del]

definition parsePreviousWinner ::
  "string list \<Rightarrow> Cursor \<Rightarrow> Cursor \<times> PreviousWinnerCast option" where
  "parsePreviousWinner lines cur0 =
     (let cur = skipEmpty lines cur0
      in if lineIndex cur \<ge> length lines then (cur, None)
         else if toUpperCase (trim (lines ! lineIndex cur)) \<noteq> ''PREVIOUS_WINNER''
         then (cur, None)
         else
           let cur1 = skipEmpty lines (advance cur)
           in if lineIndex cur1 \<ge> length lines
              then (addError (Some ''PREVIOUS_WINNER'') cur1, None)
              else
                case match2 PREVIOUS_WINNER_YEAR_PATTERN (trim (lines ! lineIndex cur1)) of
                  None \<Rightarrow>
                    let cur2 = skipToEnd lines (addError (Some ''PREVIOUS_WINNER'') cur1)
                    in (if lineIndex cur2 < length lines then advance cur2 else cur2, None)
                | Some (yearStr, lbl) \<Rightarrow>
                    let yr = parseInt yearStr;
                        cur2 = skipEmpty lines (advance cur1)
                    in if lineIndex cur2 \<ge> length lines
                       then (cur2, Some \<lparr>pw_year = yr, pw_label = lbl, pw_stints = []\<rparr>)
                       else if toUpperCase (trim (lines ! lineIndex cur2)) \<noteq> ''STINTS:''
                       then (cur2, Some \<lparr>pw_year = yr, pw_label = lbl, pw_stints = []\<rparr>)
                       else
                         let (cur3, pwSt) = parsePwStints lines (advance cur2) []
                         in (cur3, Some \<lparr>pw_year = yr, pw_label = lbl, pw_stints = pwSt\<rparr>))"

subsection \<open>Post-parse validation and the result\<close>

definition lapMismatchWarning :: "int \<Rightarrow> int \<Rightarrow> string" where
  "lapMismatchWarning totalStintLaps raceLaps =
     ''Total stint laps ('' @ show_int totalStintLaps @ '') does not match race laps (''
       @ show_int raceLaps @ ''). '' @ ''This may affect simulation accuracy.''"

definition wetTireWarning :: string where
  "wetTireWarning =
     ''Wet weather conditions but no wet or intermediate tires selected. Consider tire choice.''"

definition postParseWarnings :: "RaceConfigCast option \<Rightarrow> StrategyCast option \<Rightarrow> string list" where
  "postParseWarnings raceConfigValue strategyValue =
     (case (raceConfigValue, strategyValue) of
        (Some rc, Some strat) \<Rightarrow>
          (let stnts = sc_stints strat;
               totalStintLaps = foldl (\<lambda>sum s. sum + sc_lapsInStint s) 0 stnts;
               w1 = (if totalStintLaps \<noteq> rc_totalLaps rc
                     then [lapMismatchWarning totalStintLaps (rc_totalLaps rc)] else []);
               w2 = (if rc_weather rc = ''wet'' then
                       (let hasWetTires =
                              list_ex (\<lambda>s. sc_tireCompound s = ''INTERMEDIATE''
                                          \<or> sc_tireCompound s = ''WET'') stnts
                        in if \<not> hasWetTires then [wetTireWarning] else [])
                     else [])
           in w1 @ w2)
      | _ \<Rightarrow> [])"

definition castStint :: "StintCast \<Rightarrow> Stint option" where
  "castStint s =
     map_option (\<lambda>t. \<lparr>stintNumber = sc_stintNumber s, tireCompound = t,
                      lapsInStint = sc_lapsInStint s\<rparr>)
       (asTire (sc_tireCompound s))"

definition castPwStint :: "PreviousWinnerStintCast \<Rightarrow> PreviousWinnerStint option" where
  "castPwStint s =
     map_option (\<lambda>t. \<lparr>pwTireCompound = t, pwLaps = pw_laps s\<rparr>) (asTire (pw_tireCompound s))"

definition castPreviousWinner :: "PreviousWinnerCast \<Rightarrow> PreviousWinnerStrategy option" where
  "castPreviousWinner pw =
     map_option (\<lambda>ss. \<lparr>year = pw_year pw, pwLabel = pw_label pw, pwStints = ss\<rparr>)
       (those (map castPwStint (pw_stints pw)))"

text \<open>
  The document that \<^verbatim>\<open>parseStrategyDSL\<close> returns on success: \<open>None\<close> when a required
  section is missing (the condition of the source's last \<^verbatim>\<open>if\<close>) or when a field
  holds a string outside its union type. Neither happens once the diagnostics list is
  empty (\<open>no_errors_buildDocument\<close> below), which is the only place this is used.
\<close>

definition buildDocument ::
  "RaceConfigCast option \<Rightarrow> CarProfileCast option \<Rightarrow> AeroClassification option
     \<Rightarrow> OvertakingDifficulty option \<Rightarrow> rat option option \<Rightarrow> StrategyCast option
     \<Rightarrow> CriticalTurn list \<Rightarrow> PreviousWinnerCast option \<Rightarrow> ParsedDSL option" where
  "buildDocument raceCfg carPrf trackAero trackOvertaking trackChance strat turns previousWinner =
     (case (raceCfg, carPrf, trackAero, trackOvertaking, trackChance, strat) of
        (Some rc, Some cp, Some aero, Some ov, Some chance, Some sg) \<Rightarrow>
          (case (asWeather (rc_weather rc), asPaceClass (cp_paceClass cp),
                 asRiskProfile (cp_riskProfile cp), those (map castStint (sc_stints sg)),
                 (case previousWinner of None \<Rightarrow> Some None
                  | Some pw \<Rightarrow> map_option Some (castPreviousWinner pw))) of
             (Some w, Some pc, Some rp, Some sts, Some pwOpt) \<Rightarrow>
               Some \<lparr>raceConfig =
                       \<lparr>trackName = rc_trackName rc, totalLaps = rc_totalLaps rc,
                        weather = w, fieldSize = rc_fieldSize rc\<rparr>,
                     carProfile =
                       \<lparr>startingGridPosition = cp_startingGridPosition cp, paceClass = pc,
                        riskProfile = rp, targetMinPosition = cp_targetMinPosition cp\<rparr>,
                     trackProfile =
                       \<lparr>aeroClassification = aero, overtakingDifficulty = ov,
                        overtakingChance = chance, criticalTurns = turns,
                        previousWinnerStrategy = pwOpt\<rparr>,
                     strategy = \<lparr>label = sc_label sg, stints = sts\<rparr>\<rparr>
           | _ \<Rightarrow> None)
      | _ \<Rightarrow> None)"

text \<open>
  The main function. No operation inside the source's \<^verbatim>\<open>try\<close> block can throw (every
  array read is guarded by the cursor test, every destructured match is non-null), so its
  \<^verbatim>\<open>catch\<close> branch has no counterpart here.
\<close>

definition parseStrategyDSL :: "string \<Rightarrow> DSLParseResult" where
  "parseStrategyDSL dslText =
     (let lines = map trimEnd (split_on (CHR 0x0A) dslText);
          cur0 = \<lparr>lineIndex = 0, errorList = []\<rparr>;
          (cur1, raceCfg) = parseRace lines cur0;
          (cur2, carPrf) = parseCar lines cur1;
          (cur3, trackAero, trackOvertaking, trackChance) = parseTrack lines cur2;
          (cur4, strat) = parseStrategy lines cur3;
          (cur5, turns) = parseCriticalTurns lines cur4;
          (cur6, previousWinner) = parsePreviousWinner lines cur5;
          warns = postParseWarnings raceCfg strat;
          cur7 = (case (raceCfg, carPrf) of
                    (Some rc, Some cp) \<Rightarrow>
                      if cp_startingGridPosition cp > rc_fieldSize rc
                      then addError (Some ''CAR'') cur6 else cur6
                  | _ \<Rightarrow> cur6)
      in if length (errorList cur7) > 0 then
           \<lparr>success = False, data = None, errors = errorList cur7, warnings = warns,
            rawDSL = dslText\<rparr>
         else
           case buildDocument raceCfg carPrf trackAero trackOvertaking trackChance strat turns
                  previousWinner of
             None \<Rightarrow>
               \<lparr>success = False, data = None, errors = errorList (addError None cur7),
                warnings = warns, rawDSL = dslText\<rparr>
           | Some parsedData \<Rightarrow>
               \<lparr>success = True, data = Some parsedData, errors = [], warnings = warns,
                rawDSL = dslText\<rparr>)"

section \<open>Predicates used in the statements and proofs\<close>

subsection \<open>Invariants of the simulation loops\<close>

definition posInv :: "int \<Rightarrow> RaceState \<Rightarrow> bool" where
  "posInv fs s \<longleftrightarrow> 1 \<le> currentPosition s \<and> currentPosition s \<le> fs
     \<and> (\<forall>r\<in>set (st_lapData s). 1 \<le> position r \<and> position r \<le> fs)"

definition countInv :: "RaceState \<Rightarrow> bool" where
  "countInv s \<longleftrightarrow>
     sum_list (map smTotalLaps (st_stintMetrics s)) = int (length (st_lapData s))"

definition rawWear :: "int \<Rightarrow> TireCompound \<Rightarrow> rat" where
  "rawWear k c = (let n = cliffLap (TIRE_PROFILES c) in
     of_int k / (of_int n * 1.5) + (if k > n then of_int (k - n) / of_int n * 0.5 else 0))"

definition wearStep :: "LapData \<Rightarrow> LapData \<Rightarrow> bool" where
  "wearStep a b \<longleftrightarrow>
     (if event a = Some pit_stop
      then tireWear b = calculateTireWear 1 (ldTireCompound b)
      else tireWear a \<le> tireWear b)"

definition wearOK :: "LapData list \<Rightarrow> bool" where
  "wearOK xs \<longleftrightarrow> successively wearStep xs \<and> (\<forall>r\<in>set xs. 0 \<le> tireWear r \<and> tireWear r \<le> 1)"

definition wearLapInv :: "Stint \<Rightarrow> bool \<Rightarrow> int \<Rightarrow> RaceState \<Rightarrow> bool" where
  "wearLapInv stint l j s \<longleftrightarrow> wearOK (st_lapData s) \<and>
     (st_lapData s \<noteq> [] \<longrightarrow>
        (if j = 1 then event (last (st_lapData s)) = Some pit_stop
         else (event (last (st_lapData s)) = Some pit_stop \<longleftrightarrow> j = lapsInStint stint + 1 \<and> \<not> l)
            \<and> tireWear (last (st_lapData s)) = calculateTireWear (j - 1) (tireCompound stint)))"

definition wearStintInv :: "Strategy \<Rightarrow> nat \<Rightarrow> RaceState \<Rightarrow> bool" where
  "wearStintInv strat i s \<longleftrightarrow> wearOK (st_lapData s) \<and>
     (st_lapData s \<noteq> [] \<and> i < length (stints strat) \<longrightarrow>
        event (last (st_lapData s)) = Some pit_stop)"

text \<open>The wear values of one stint, lap 1 to its last lap.\<close>

definition stintWear :: "Stint \<Rightarrow> rat list" where
  "stintWear s = map (\<lambda>k. calculateTireWear k (tireCompound s)) [1..lapsInStint s]"

subsection \<open>What the parser has checked\<close>

definition raceOK :: "RaceConfigCast \<Rightarrow> bool" where
  "raceOK rc \<longleftrightarrow> isValidWeather (rc_weather rc) \<and> 1 \<le> rc_totalLaps rc \<and> rc_totalLaps rc \<le> 100
     \<and> 2 \<le> rc_fieldSize rc \<and> rc_fieldSize rc \<le> 30"

definition carOK :: "CarProfileCast \<Rightarrow> bool" where
  "carOK cp \<longleftrightarrow> isValidPaceClass (cp_paceClass cp) \<and> isValidRiskProfile (cp_riskProfile cp)"

definition stintOK :: "StintCast \<Rightarrow> bool" where
  "stintOK s \<longleftrightarrow> isValidTire (sc_tireCompound s) \<and> 1 \<le> sc_lapsInStint s"

definition pwStintOK :: "PreviousWinnerStintCast \<Rightarrow> bool" where
  "pwStintOK s \<longleftrightarrow> isValidTire (pw_tireCompound s)"

text \<open>
  The last part of \<open>parseStrategyDSL\<close>, after the six section parsers have run: the
  check for diagnostics, the two warnings and the construction of the result. It is
  the same text as in \<open>parseStrategyDSL\<close>, given a name so that the proofs can speak
  about it; \<open>parseStrategyDSL_finish\<close> shows that the parser is this function applied
  to what the section parsers return.
\<close>

definition finish ::
  "string \<Rightarrow> Cursor \<Rightarrow> RaceConfigCast option \<Rightarrow> CarProfileCast option
     \<Rightarrow> AeroClassification option \<Rightarrow> OvertakingDifficulty option \<Rightarrow> rat option option
     \<Rightarrow> StrategyCast option \<Rightarrow> CriticalTurn list \<Rightarrow> PreviousWinnerCast option
     \<Rightarrow> DSLParseResult" where
  "finish dslText cur6 raceCfg carPrf trackAero trackOvertaking trackChance strat turns previousWinner =
     (let warns = postParseWarnings raceCfg strat;
          cur7 = (case (raceCfg, carPrf) of
                    (Some rc, Some cp) \<Rightarrow>
                      if cp_startingGridPosition cp > rc_fieldSize rc
                      then addError (Some ''CAR'') cur6 else cur6
                  | _ \<Rightarrow> cur6)
      in if length (errorList cur7) > 0 then
           \<lparr>success = False, data = None, errors = errorList cur7, warnings = warns,
            rawDSL = dslText\<rparr>
         else
           case buildDocument raceCfg carPrf trackAero trackOvertaking trackChance strat turns
                  previousWinner of
             None \<Rightarrow>
               \<lparr>success = False, data = None, errors = errorList (addError None cur7),
                warnings = warns, rawDSL = dslText\<rparr>
           | Some parsedData \<Rightarrow>
               \<lparr>success = True, data = Some parsedData, errors = [], warnings = warns,
                rawDSL = dslText\<rparr>)"

definition validDocument :: "ParsedDSL \<Rightarrow> bool" where
  "validDocument d \<longleftrightarrow>
     1 \<le> totalLaps (raceConfig d) \<and> totalLaps (raceConfig d) \<le> 100 \<and>
     2 \<le> fieldSize (raceConfig d) \<and> fieldSize (raceConfig d) \<le> 30 \<and>
     startingGridPosition (carProfile d) \<le> fieldSize (raceConfig d) \<and>
     stints (strategy d) \<noteq> [] \<and>
     list_all (\<lambda>s. 1 \<le> lapsInStint s) (stints (strategy d))"

subsection \<open>The position range in the words of the specification\<close>

text \<open>
  The range as the specification words it: the prediction plus and minus the variance, each end
  clamped into \<open>[ceiling, min(fieldSize, floor)]\<close>.
\<close>

definition claimedPositionRange :: "RaceConfig \<Rightarrow> CarProfile \<Rightarrow> int \<Rightarrow> PositionRange" where
  "claimedPositionRange race car predicted =
     (let pe = PACE_CLASS_EFFECTS (paceClass car);
          variance = (if riskProfile car = aggressive then 2 else 1);
          lo = realisticCeiling pe;
          hi = min (fieldSize race) (realisticFloor pe);
          clampInto = (\<lambda>x. max lo (min hi x))
      in \<lparr>range_min = clampInto (predicted - variance),
          range_max = clampInto (predicted + variance)\<rparr>)"

subsection \<open>The degradation term in the words of the specification\<close>

text \<open>
  The degradation term as the specification words it: the base term
  \<open>degradationRate \<times> weatherMultiplier \<times> tireManagement \<times> lapInStint\<close>, and past the
  cliff lap a penalty on top of it that ramps linearly over the ten laps after the cliff
  and is capped there. The specification names no full value of the penalty; the
  increment that the code computes, \<open>degradationRate \<times> cliffMultiplier - degradationRate\<close>,
  is taken.
\<close>

definition claimedTireDegradation :: "TireCompound \<Rightarrow> int \<Rightarrow> Weather \<Rightarrow> RiskProfile \<Rightarrow> rat" where
  "claimedTireDegradation compound lapInStint weath risk =
     (let profile = TIRE_PROFILES compound;
          base = degradationRate profile * or_default (WEATHER_DEGRADATION_MULTIPLIER weath) 1.0
                   * tireManagement (RISK_PROFILE_EFFECTS risk) * of_int lapInStint;
          fullPenalty = degradationRate profile * cliffMultiplier profile - degradationRate profile
      in if lapInStint \<le> cliffLap profile then base
         else base + fullPenalty * of_int (min (lapInStint - cliffLap profile) 10) / 10)"

subsection \<open>The simulation of a parsed document, and example documents\<close>

text \<open>
  The call of \<^verbatim>\<open>simulateRace\<close> on a parsed document, as the strategy endpoint
  (\<^verbatim>\<open>app/api/strategy/route.ts\<close>) makes it.
\<close>

definition simulateParsed :: "ParsedDSL \<Rightarrow> SimulationResult" where
  "simulateParsed d = simulateRace (raceConfig d) (carProfile d) (strategy d) (trackProfile d)"

definition nl :: string where
  "nl = [CHR 0x0A]"

definition dq :: string where
  "dq = [CHR 0x22]"

definition sprintDSL :: string where
  "sprintDSL =
     ''RACE MONZA LAPS=5 WEATHER=hot FIELD=20'' @ nl @
     ''CAR START=P9 PACE=midfield RISK=balanced TARGET=P8'' @ nl @
     ''TRACK AERO=drag_reliant'' @ nl @
     ''TRACK OVERTAKING=easy CHANCE=0.55'' @ nl @ nl @
     ''STRATEGY '' @ dq @ ''Sprint'' @ dq @ nl @
     ''  STINT 1 TIRE=SOFT LAPS=3'' @ nl @
     ''  STINT 2 TIRE=MEDIUM LAPS=2'' @ nl @
     ''END''"

definition sprintDoc :: ParsedDSL where
  "sprintDoc =
     \<lparr>raceConfig = \<lparr>trackName = ''MONZA'', totalLaps = 5, weather = hot, fieldSize = 20\<rparr>,
      carProfile = \<lparr>startingGridPosition = 9, paceClass = midfield, riskProfile = balanced,
                    targetMinPosition = Some 8\<rparr>,
      trackProfile = \<lparr>aeroClassification = drag_reliant, overtakingDifficulty = easy,
                      overtakingChance = Some 0.55, criticalTurns = [],
                      previousWinnerStrategy = None\<rparr>,
      strategy = \<lparr>label = ''Sprint'',
                  stints = [\<lparr>stintNumber = 1, tireCompound = SOFT, lapsInStint = 3\<rparr>,
                            \<lparr>stintNumber = 2, tireCompound = MEDIUM, lapsInStint = 2\<rparr>]\<rparr>\<rparr>"

definition shortDSL :: string where
  "shortDSL =
     ''RACE MONZA LAPS=5 WEATHER=hot FIELD=20'' @ nl @
     ''CAR START=P9 PACE=midfield RISK=balanced TARGET=P8'' @ nl @
     ''TRACK AERO=drag_reliant'' @ nl @
     ''TRACK OVERTAKING=easy CHANCE=0.55'' @ nl @ nl @
     ''STRATEGY '' @ dq @ ''Sprint'' @ dq @ nl @
     ''  STINT 1 TIRE=SOFT LAPS=3'' @ nl @
     ''  STINT 2 TIRE=MEDIUM LAPS=1'' @ nl @
     ''END''"

definition shortDoc :: ParsedDSL where
  "shortDoc =
     \<lparr>raceConfig = \<lparr>trackName = ''MONZA'', totalLaps = 5, weather = hot, fieldSize = 20\<rparr>,
      carProfile = \<lparr>startingGridPosition = 9, paceClass = midfield, riskProfile = balanced,
                    targetMinPosition = Some 8\<rparr>,
      trackProfile = \<lparr>aeroClassification = drag_reliant, overtakingDifficulty = easy,
                      overtakingChance = Some 0.55, criticalTurns = [],
                      previousWinnerStrategy = None\<rparr>,
      strategy = \<lparr>label = ''Sprint'',
                  stints = [\<lparr>stintNumber = 1, tireCompound = SOFT, lapsInStint = 3\<rparr>,
                            \<lparr>stintNumber = 2, tireCompound = MEDIUM, lapsInStint = 1\<rparr>]\<rparr>\<rparr>"

definition smallFieldDSL :: string where
  "smallFieldDSL =
     ''RACE MONZA LAPS=5 WEATHER=normal FIELD=5'' @ nl @
     ''CAR START=P3 PACE=backmarker RISK=balanced'' @ nl @
     ''TRACK AERO=balanced'' @ nl @
     ''TRACK OVERTAKING=medium CHANCE=0.5'' @ nl @
     ''STRATEGY '' @ dq @ ''One stint'' @ dq @ nl @
     ''STINT 1 TIRE=MEDIUM LAPS=5'' @ nl @
     ''END''"

definition smallFieldDoc :: ParsedDSL where
  "smallFieldDoc =
     \<lparr>raceConfig = \<lparr>trackName = ''MONZA'', totalLaps = 5, weather = normal, fieldSize = 5\<rparr>,
      carProfile = \<lparr>startingGridPosition = 3, paceClass = backmarker, riskProfile = balanced,
                    targetMinPosition = None\<rparr>,
      trackProfile = \<lparr>aeroClassification = aero_balanced, overtakingDifficulty = medium,
                      overtakingChance = Some 0.5, criticalTurns = [],
                      previousWinnerStrategy = None\<rparr>,
      strategy = \<lparr>label = ''One stint'',
                  stints = [\<lparr>stintNumber = 1, tireCompound = MEDIUM, lapsInStint = 5\<rparr>]\<rparr>\<rparr>"

section \<open>Tire degradation\<close>

lemma weather_multiplier_nonzero:
  "or_default (WEATHER_DEGRADATION_MULTIPLIER w) 1.0 = WEATHER_DEGRADATION_MULTIPLIER w"
  by (cases w) (simp_all add: or_default_def)

lemma simulateLap_degradation:
  "stintDegradationLoss (simulateLap race car tp stint isLastStint lapInStint st) =
     stintDegradationLoss st +
     calculateTireDegradation (tireCompound stint) lapInStint (weather race) (riskProfile car)"
  by (simp add: simulateLap_def Let_def)

section \<open>The overtaking step keeps the car inside the field\<close>

lemma ceiling_ge_1: "1 \<le> realisticCeiling (PACE_CLASS_EFFECTS p)"
  by (cases p) simp_all

lemma floor_ge_1: "1 \<le> realisticFloor (PACE_CLASS_EFFECTS p)"
  by (cases p) simp_all

lemma ceiling_le_floor:
  "realisticCeiling (PACE_CLASS_EFFECTS p) \<le> realisticFloor (PACE_CLASS_EFFECTS p)"
  by (cases p) simp_all

lemma gainThreshold_pos:
  "0 < 0.3 * overtakingAbility (PACE_CLASS_EFFECTS p)
         * overtakingAggressiveness (RISK_PROFILE_EFFECTS r)"
  by (cases p; cases r) simp_all

lemma js_rem_nonneg: "0 \<le> a \<Longrightarrow> 0 \<le> js_rem a b"
  by (cases "b = 0") (auto simp: js_rem_def sgn_if)

lemma if3:
  "(A \<Longrightarrow> P x) \<Longrightarrow> (\<not> A \<Longrightarrow> B \<Longrightarrow> P y) \<Longrightarrow> (\<not> A \<Longrightarrow> \<not> B \<Longrightarrow> P z)
    \<Longrightarrow> P (if A then x else if B then y else z)"
  by simp

text \<open>
  Whatever the seeds and probabilities are, the new position is the old one, or a gain
  of at least one place that stops at the ceiling (only for a car behind its ceiling), or
  the loss of one place: capped by the field size on the first lap, and on a later lap
  taken only by a car that is not last and capped by the floor.
\<close>

lemma simulateOvertaking_cases:
  fixes cur fs lapNo :: int and tp :: TrackProfile and pace :: PaceClass
    and risk :: RiskProfile and isFirst :: bool
  defines "r \<equiv> simulateOvertaking cur tp pace risk lapNo isFirst fs"
  defines "c \<equiv> realisticCeiling (PACE_CLASS_EFFECTS pace)"
  defines "f \<equiv> realisticFloor (PACE_CLASS_EFFECTS pace)"
  shows "newPosition r = cur
       \<or> (c < cur \<and> (\<exists>g\<ge>1. newPosition r = max c (cur - g)))
       \<or> (isFirst \<and> newPosition r = min fs (cur + 1))
       \<or> (\<not> isFirst \<and> cur < fs \<and> newPosition r = min f (cur + 1))"
proof (cases isFirst)
  case True
  let ?seed = "(of_int (js_rem (cur * 47 + 13) 100) :: rat) / 100"
  let ?pg = "(if cur > 10 then 3 else if cur > 5 then 2 else 1 :: int)"
  let ?thr = "0.3 * overtakingAbility (PACE_CLASS_EFFECTS pace)
                * overtakingAggressiveness (RISK_PROFILE_EFFECTS risk)"
  let ?gain = "min ?pg (\<lfloor>?seed / ?thr * of_int ?pg\<rfloor> + 1)"
  have gain: "1 \<le> ?gain" if "c < cur"
  proof -
    have "1 \<le> c" unfolding c_def by (rule ceiling_ge_1)
    with that have "0 \<le> cur * 47 + 13" by simp
    then have "0 \<le> ?seed" using js_rem_nonneg by simp
    moreover have "0 < ?thr" by (rule gainThreshold_pos)
    moreover have "(0::rat) \<le> of_int ?pg" by simp
    ultimately have "0 \<le> ?seed / ?thr * of_int ?pg"
      using divide_nonneg_pos mult_nonneg_nonneg by blast
    then have "0 \<le> \<lfloor>?seed / ?thr * of_int ?pg\<rfloor>" by simp
    then show ?thesis by simp
  qed
  show ?thesis
    unfolding r_def simulateOvertaking_def Let_def
    apply (simp only: True if_True)
    apply (rule if3)
    subgoal
      apply (rule disjI2, rule disjI1)
      apply (simp only: OvertakeResult.simps c_def[symmetric])
      apply (rule conjI, simp)
      apply (rule exI[of _ ?gain])
      using gain by simp
    subgoal
      apply (rule disjI2, rule disjI2, rule disjI1)
      by (simp only: OvertakeResult.simps) simp
    subgoal
      apply (rule disjI1)
      by (simp only: OvertakeResult.simps)
    done
next
  case False
  show ?thesis
    unfolding r_def simulateOvertaking_def Let_def
    apply (simp only: False if_False)
    apply (rule if3)
    subgoal
      apply (rule disjI2, rule disjI1)
      apply (simp only: OvertakeResult.simps c_def[symmetric])
      apply (rule conjI, simp)
      apply (rule exI[of _ 1])
      by simp
    subgoal
      apply (rule disjI2, rule disjI2, rule disjI2)
      by (simp only: OvertakeResult.simps f_def[symmetric]) simp
    subgoal
      apply (rule disjI1)
      by (simp only: OvertakeResult.simps)
    done
qed

lemma simulateOvertaking_upper:
  assumes "cur \<le> fs"
  shows "newPosition (simulateOvertaking cur tp pace risk lapNo isFirst fs) \<le> fs"
  using simulateOvertaking_cases[of cur tp pace risk lapNo isFirst fs] assms
  by (elim disjE conjE exE) simp_all

lemma simulateOvertaking_lower:
  assumes "1 \<le> cur" "cur \<le> fs"
  shows "1 \<le> newPosition (simulateOvertaking cur tp pace risk lapNo isFirst fs)"
  using simulateOvertaking_cases[of cur tp pace risk lapNo isFirst fs] assms
    ceiling_ge_1[of pace] floor_ge_1[of pace]
  by (elim disjE conjE exE) simp_all

subsection \<open>What one lap does to the state\<close>

lemma simulateLap_position:
  "currentPosition (simulateLap race car tp stint l k st) =
     newPosition (simulateOvertaking (currentPosition st) tp (paceClass car) (riskProfile car)
                    (currentLap st + 1) (currentLap st + 1 = 1) (fieldSize race))"
  by (simp add: simulateLap_def Let_def)

lemma simulateLap_metrics:
  "st_stintMetrics (simulateLap race car tp stint l k st) = st_stintMetrics st"
  by (simp add: simulateLap_def Let_def)

lemma simulateLap_lapData:
  "\<exists>r. st_lapData (simulateLap race car tp stint l k st) = st_lapData st @ [r]
     \<and> position r = currentPosition (simulateLap race car tp stint l k st)
     \<and> tireWear r = calculateTireWear k (tireCompound stint)
     \<and> ldTireCompound r = tireCompound stint
     \<and> (event r = Some pit_stop \<longleftrightarrow> k = lapsInStint stint \<and> \<not> l)"
  by (simp add: simulateLap_def Let_def)

subsection \<open>Loop rules\<close>

text \<open>
  An invariant indexed by the loop counter: if it holds on entry and every iteration
  carries it from \<open>j\<close> to \<open>j + 1\<close>, it holds on exit at the counter's final value.
\<close>

lemma lapLoop_rule:
  assumes "P k st"
    and "\<And>j s. k \<le> j \<Longrightarrow> j \<le> lapsInStint stint \<Longrightarrow> P j s
            \<Longrightarrow> P (j + 1) (simulateLap race car tp stint l j s)"
  shows "P (max k (lapsInStint stint + 1)) (lapLoop race car tp stint l k st)"
  using assms
proof (induction race car tp stint l k st rule: lapLoop.induct)
  case (1 race car tp stint l k st)
  show ?case
  proof (cases "k \<le> lapsInStint stint")
    case True
    have "P (k + 1) (simulateLap race car tp stint l k st)"
      using "1.prems" True by simp
    then have "P (max (k + 1) (lapsInStint stint + 1))
                 (lapLoop race car tp stint l (k + 1) (simulateLap race car tp stint l k st))"
      using "1.IH"[OF True] "1.prems"(2) by simp
    then show ?thesis using True by (subst lapLoop.simps) (simp add: max_def)
  next
    case False
    then have "max k (lapsInStint stint + 1) = k" by simp
    then show ?thesis using False "1.prems"(1) by (subst lapLoop.simps) simp
  qed
qed

lemma stintLoop_rule:
  assumes "P i st"
    and "\<And>j s. i \<le> j \<Longrightarrow> j < length (stints strat) \<Longrightarrow> P j s
            \<Longrightarrow> P (j + 1) (simulateStint race car strat tp j s)"
  shows "P (max i (length (stints strat))) (stintLoop race car strat tp i st)"
  using assms
proof (induction race car strat tp i st rule: stintLoop.induct)
  case (1 race car strat tp i st)
  show ?case
  proof (cases "i < length (stints strat)")
    case True
    have "P (i + 1) (simulateStint race car strat tp i st)"
      using "1.prems" True by simp
    then have "P (max (i + 1) (length (stints strat)))
                 (stintLoop race car strat tp (i + 1) (simulateStint race car strat tp i st))"
      using "1.IH"[OF True] "1.prems"(2) by simp
    then show ?thesis using True by (subst stintLoop.simps) (simp add: max_def)
  next
    case False
    then have "max i (length (stints strat)) = i" by simp
    then show ?thesis using False "1.prems"(1) by (subst stintLoop.simps) simp
  qed
qed


subsection \<open>Positions\<close>

lemma posInv_simulateLap:
  assumes "posInv (fieldSize race) s"
  shows "posInv (fieldSize race) (simulateLap race car tp stint l j s)"
proof -
  let ?s' = "simulateLap race car tp stint l j s"
  from assms have b: "1 \<le> currentPosition s" "currentPosition s \<le> fieldSize race"
    by (simp_all add: posInv_def)
  have p: "1 \<le> currentPosition ?s'" "currentPosition ?s' \<le> fieldSize race"
    unfolding simulateLap_position
    using simulateOvertaking_lower[OF b] simulateOvertaking_upper[OF b(2)] by simp_all
  obtain r where r: "st_lapData ?s' = st_lapData s @ [r]" "position r = currentPosition ?s'"
    using simulateLap_lapData[of race car tp stint l j s] by blast
  show ?thesis
    using assms p r by (auto simp: posInv_def)
qed

lemma posInv_lapLoop:
  assumes "posInv (fieldSize race) s"
  shows "posInv (fieldSize race) (lapLoop race car tp stint l k s)"
  using lapLoop_rule[where P = "\<lambda>j. posInv (fieldSize race)", OF assms posInv_simulateLap]
  by simp

lemma posInv_simulateStint:
  assumes "posInv (fieldSize race) s"
  shows "posInv (fieldSize race) (simulateStint race car strat tp i s)"
proof -
  have "posInv (fieldSize race) (s\<lparr>stintDegradationLoss := 0\<rparr>)"
    using assms by (simp add: posInv_def)
  from posInv_lapLoop[OF this] show ?thesis
    by (simp add: simulateStint_def Let_def posInv_def)
qed

lemma posInv_stintLoop:
  assumes "posInv (fieldSize race) s"
  shows "posInv (fieldSize race) (stintLoop race car strat tp i s)"
  using stintLoop_rule[where P = "\<lambda>j. posInv (fieldSize race)", OF assms posInv_simulateStint]
  by simp

lemma lap_positions_in_field:
  assumes "1 \<le> startingGridPosition car" "startingGridPosition car \<le> fieldSize race"
  shows "\<forall>r\<in>set (lapData (simulateRace race car strat tp)).
           1 \<le> position r \<and> position r \<le> fieldSize race"
proof -
  have "posInv (fieldSize race) (initialState car)"
    using assms by (simp add: posInv_def initialState_def)
  from posInv_stintLoop[OF this, of car strat tp 0] show ?thesis
    by (simp add: simulateRace_def Let_def posInv_def)
qed

subsection \<open>Upper bound alone (also for a car entered as P0)\<close>

lemma upper_simulateLap:
  "currentPosition s \<le> fieldSize race \<Longrightarrow>
   currentPosition (simulateLap race car tp stint l j s) \<le> fieldSize race"
  unfolding simulateLap_position by (rule simulateOvertaking_upper)

lemma upper_lapLoop:
  assumes "currentPosition s \<le> fieldSize race"
  shows "currentPosition (lapLoop race car tp stint l k s) \<le> fieldSize race"
  using lapLoop_rule[where P = "\<lambda>j s. currentPosition s \<le> fieldSize race", OF assms upper_simulateLap]
  by simp

lemma upper_simulateStint:
  assumes "currentPosition s \<le> fieldSize race"
  shows "currentPosition (simulateStint race car strat tp i s) \<le> fieldSize race"
proof -
  have "currentPosition (s\<lparr>stintDegradationLoss := 0\<rparr>) \<le> fieldSize race"
    using assms by simp
  from upper_lapLoop[OF this] show ?thesis
    by (simp add: simulateStint_def Let_def)
qed

lemma upper_stintLoop:
  assumes "currentPosition s \<le> fieldSize race"
  shows "currentPosition (stintLoop race car strat tp i s) \<le> fieldSize race"
  using stintLoop_rule[where P = "\<lambda>j s. currentPosition s \<le> fieldSize race", OF assms upper_simulateStint]
  by simp

lemma final_position_upper:
  assumes "startingGridPosition car \<le> fieldSize race"
  shows "currentPosition (stintLoop race car strat tp 0 (initialState car)) \<le> fieldSize race"
  by (rule upper_stintLoop) (simp add: initialState_def assms)

subsection \<open>Counting laps\<close>

lemma length_simulateLap:
  "length (st_lapData (simulateLap race car tp stint l j s)) = Suc (length (st_lapData s))"
  using simulateLap_lapData[of race car tp stint l j s] by auto

lemma length_lapLoop:
  assumes "0 \<le> lapsInStint stint"
  shows "int (length (st_lapData (lapLoop race car tp stint l 1 s))) =
           int (length (st_lapData s)) + lapsInStint stint
       \<and> st_stintMetrics (lapLoop race car tp stint l 1 s) = st_stintMetrics s"
proof -
  let ?P = "\<lambda>j s'. int (length (st_lapData s')) = int (length (st_lapData s)) + (j - 1)
                  \<and> st_stintMetrics s' = st_stintMetrics s"
  have "?P (max 1 (lapsInStint stint + 1)) (lapLoop race car tp stint l 1 s)"
    by (rule lapLoop_rule[where P = ?P]) (simp_all add: length_simulateLap simulateLap_metrics)
  with assms show ?thesis by (simp add: max_def)
qed

lemma countInv_simulateStint:
  assumes "countInv s" "0 \<le> lapsInStint (stints strat ! i)"
  shows "countInv (simulateStint race car strat tp i s)"
proof -
  let ?s0 = "s\<lparr>stintDegradationLoss := 0\<rparr>"
  note L = length_lapLoop[OF assms(2), of race car tp _ ?s0]
  show ?thesis
    using assms(1) by (simp add: countInv_def simulateStint_def Let_def L)
qed

lemma countInv_stintLoop:
  assumes "countInv s" "\<forall>stint\<in>set (stints strat). 0 \<le> lapsInStint stint"
  shows "countInv (stintLoop race car strat tp i s)"
proof -
  have "\<And>j s. j < length (stints strat) \<Longrightarrow> countInv s
           \<Longrightarrow> countInv (simulateStint race car strat tp j s)"
    using assms(2) by (intro countInv_simulateStint) simp_all
  with stintLoop_rule[where P = "\<lambda>j. countInv", OF assms(1)] show ?thesis
    by blast
qed

lemma stint_laps_sum:
  assumes "\<forall>stint\<in>set (stints strat). 0 \<le> lapsInStint stint"
  shows "sum_list (map smTotalLaps (stintMetrics (simulateRace race car strat tp))) =
           int (length (lapData (simulateRace race car strat tp)))"
proof -
  have "countInv (initialState car)" by (simp add: countInv_def initialState_def)
  from countInv_stintLoop[OF this assms, of race car tp 0] show ?thesis
    by (simp add: simulateRace_def Let_def countInv_def)
qed

subsection \<open>Tire wear\<close>

lemma calculateTireWear_bounds:
  assumes "0 \<le> k"
  shows "0 \<le> calculateTireWear k c" "calculateTireWear k c \<le> 1"
  using assms by (cases c; simp add: calculateTireWear_def Let_def)+

lemma calculateTireWear_raw: "calculateTireWear k c = min (rawWear k c) 1"
  by (simp add: calculateTireWear_def rawWear_def Let_def)

lemma rawWear_mono: "rawWear k c \<le> rawWear (k + 1) c"
proof -
  have "rat_of_int k \<le> of_int (k + 1)" by simp
  show ?thesis
    apply (cases c; simp add: rawWear_def Let_def)
    apply (simp_all add: field_simps)
    done
qed

lemma calculateTireWear_mono:
  "calculateTireWear k c \<le> calculateTireWear (k + 1) c"
  unfolding calculateTireWear_raw using rawWear_mono[of k c] by (simp add: min_le_iff_disj)

lemma wearLapInv_simulateLap:
  assumes inv: "wearLapInv stint l j s" and j: "1 \<le> j" "j \<le> lapsInStint stint"
  shows "wearLapInv stint l (j + 1) (simulateLap race car tp stint l j s)"
proof -
  let ?xs = "st_lapData s"
  obtain r where r: "st_lapData (simulateLap race car tp stint l j s) = ?xs @ [r]"
      "tireWear r = calculateTireWear j (tireCompound stint)"
      "ldTireCompound r = tireCompound stint"
      "event r = Some pit_stop \<longleftrightarrow> j = lapsInStint stint \<and> \<not> l"
    using simulateLap_lapData[of race car tp stint l j s] by blast
  have link: "wearStep (last ?xs) r" if ne: "?xs \<noteq> []"
  proof (cases "j = 1")
    case True
    with inv ne have "event (last ?xs) = Some pit_stop" by (simp add: wearLapInv_def)
    then show ?thesis using r True by (simp add: wearStep_def)
  next
    case False
    with inv ne j have "event (last ?xs) \<noteq> Some pit_stop"
      and w: "tireWear (last ?xs) = calculateTireWear (j - 1) (tireCompound stint)"
      by (simp_all add: wearLapInv_def)
    moreover have "calculateTireWear (j - 1) (tireCompound stint) \<le> calculateTireWear j (tireCompound stint)"
      using calculateTireWear_mono[of "j - 1" "tireCompound stint"] by simp
    ultimately show ?thesis using r by (simp add: wearStep_def)
  qed
  have b: "0 \<le> tireWear r" "tireWear r \<le> 1"
    using calculateTireWear_bounds[of j "tireCompound stint"] j r by simp_all
  have "wearOK (?xs @ [r])"
    using inv link b by (auto simp: wearLapInv_def wearOK_def successively_append_iff)
  then show ?thesis
    using r j by (simp add: wearLapInv_def)
qed

lemma wearStintInv_simulateStint:
  assumes inv: "wearStintInv strat i s" and i: "i < length (stints strat)"
    and n: "1 \<le> lapsInStint (stints strat ! i)"
  shows "wearStintInv strat (i + 1) (simulateStint race car strat tp i s)"
proof -
  define stint where "stint = stints strat ! i"
  define l where "l \<longleftrightarrow> int i = int (length (stints strat)) - 1"
  define s1 where "s1 = lapLoop race car tp stint l 1 (s\<lparr>stintDegradationLoss := 0\<rparr>)"
  have "wearLapInv stint l 1 (s\<lparr>stintDegradationLoss := 0\<rparr>)"
    using inv i by (simp add: wearStintInv_def wearLapInv_def)
  then have "wearLapInv stint l (max 1 (lapsInStint stint + 1)) s1"
    unfolding s1_def by (rule lapLoop_rule) (simp add: wearLapInv_simulateLap)
  then have "wearLapInv stint l (lapsInStint stint + 1) s1"
    using n by (simp add: max_def stint_def)
  then have ok: "wearOK (st_lapData s1)"
    and pit: "st_lapData s1 \<noteq> [] \<Longrightarrow> \<not> l \<Longrightarrow> event (last (st_lapData s1)) = Some pit_stop"
    using n by (simp_all add: wearLapInv_def stint_def)
  have nl: "\<not> l" if "i + 1 < length (stints strat)"
    using that by (simp add: l_def)
  have eq: "st_lapData (simulateStint race car strat tp i s) = st_lapData s1"
    by (simp add: simulateStint_def Let_def s1_def stint_def l_def)
  show ?thesis
    unfolding wearStintInv_def eq using ok pit nl by blast
qed

lemma wearOK_simulateRace:
  assumes "\<forall>stint\<in>set (stints strat). 1 \<le> lapsInStint stint"
  shows "wearOK (lapData (simulateRace race car strat tp))"
proof -
  have step: "wearStintInv strat (j + 1) (simulateStint race car strat tp j s)"
    if "j < length (stints strat)" "wearStintInv strat j s" for j s
    using that assms by (intro wearStintInv_simulateStint) simp_all
  have "wearStintInv strat 0 (initialState car)"
    by (simp add: wearStintInv_def wearOK_def initialState_def)
  then have "wearStintInv strat (max 0 (length (stints strat)))
               (stintLoop race car strat tp 0 (initialState car))"
    by (rule stintLoop_rule) (rule step)
  then show ?thesis
    by (simp add: wearStintInv_def simulateRace_def Let_def)
qed

lemma tire_wear_typed:
  fixes race :: RaceConfig and car :: CarProfile and tp :: TrackProfile
  assumes "\<forall>stint\<in>set (stints strat). 1 \<le> lapsInStint stint"
  defines "laps \<equiv> lapData (simulateRace race car strat tp)"
  shows "(\<forall>r\<in>set laps. 0 \<le> tireWear r \<and> tireWear r \<le> 1)
       \<and> (\<forall>i. Suc i < length laps \<longrightarrow>
            (if event (laps ! i) = Some pit_stop
             then tireWear (laps ! Suc i) = calculateTireWear 1 (ldTireCompound (laps ! Suc i))
             else tireWear (laps ! i) \<le> tireWear (laps ! Suc i)))"
proof -
  have ok: "wearOK laps" unfolding laps_def by (rule wearOK_simulateRace[OF assms(1)])
  then have "successively wearStep laps" by (simp add: wearOK_def)
  then have "\<forall>i. Suc i < length laps \<longrightarrow> wearStep (laps ! i) (laps ! Suc i)"
    using successively_nth by blast
  with ok show ?thesis by (simp add: wearOK_def wearStep_def)
qed

subsection \<open>The wear trace, stint by stint\<close>

lemma wear_simulateLap:
  "map tireWear (st_lapData (simulateLap race car tp stint l j s)) =
     map tireWear (st_lapData s) @ [calculateTireWear j (tireCompound stint)]"
  using simulateLap_lapData[of race car tp stint l j s] by auto

lemma wear_lapLoop:
  "map tireWear (st_lapData (lapLoop race car tp stint l 1 s)) =
     map tireWear (st_lapData s) @ stintWear stint"
proof -
  let ?f = "\<lambda>k. calculateTireWear k (tireCompound stint)"
  let ?P = "\<lambda>j (s' :: RaceState).
              map tireWear (st_lapData s') = map tireWear (st_lapData s) @ map ?f [1..j - 1]"
  have "?P (max 1 (lapsInStint stint + 1)) (lapLoop race car tp stint l 1 s)"
  proof (rule lapLoop_rule[where P = ?P])
    show "?P 1 s" by simp
  next
    fix j and s' :: RaceState
    assume "1 \<le> j" "j \<le> lapsInStint stint" "?P j s'"
    moreover from \<open>1 \<le> j\<close> have "[1..j] = [1..j - 1] @ [j]"
      by (simp add: upto_rec2)
    ultimately show "?P (j + 1) (simulateLap race car tp stint l j s')"
      by (simp add: wear_simulateLap)
  qed
  then show ?thesis
    by (cases "1 \<le> lapsInStint stint + 1") (simp_all add: stintWear_def max_def)
qed

lemma wear_simulateStint:
  "map tireWear (st_lapData (simulateStint race car strat tp i s)) =
     map tireWear (st_lapData s) @ stintWear (stints strat ! i)"
  using wear_lapLoop[of race car tp "stints strat ! i" _ "s\<lparr>stintDegradationLoss := 0\<rparr>"]
  by (simp add: simulateStint_def Let_def)

lemma wear_simulateRace:
  "map tireWear (lapData (simulateRace race car strat tp)) =
     concat (map stintWear (stints strat))"
proof -
  let ?P = "\<lambda>i (s :: RaceState).
              map tireWear (st_lapData s) = concat (map stintWear (take i (stints strat)))"
  have "?P (max 0 (length (stints strat))) (stintLoop race car strat tp 0 (initialState car))"
  proof (rule stintLoop_rule[where P = ?P])
    show "?P 0 (initialState car)" by (simp add: initialState_def)
  next
    fix j and s :: RaceState
    assume "j < length (stints strat)" "?P j s"
    then show "?P (j + 1) (simulateStint race car strat tp j s)"
      by (simp add: wear_simulateStint take_Suc_conv_app_nth)
  qed
  then show ?thesis by (simp add: simulateRace_def Let_def)
qed

subsection \<open>The finish prediction and its range\<close>

lemma predicted_in_envelope:
  "realisticCeiling (PACE_CLASS_EFFECTS (paceClass car))
     \<le> predictedFinishPosition (simulateRace race car strat tp)
   \<and> predictedFinishPosition (simulateRace race car strat tp)
     \<le> realisticFloor (PACE_CLASS_EFFECTS (paceClass car))"
  using ceiling_le_floor[of "paceClass car"]
  by (simp add: simulateRace_def Let_def)

lemma predicted_le_field:
  assumes "startingGridPosition car \<le> fieldSize race"
    and "realisticCeiling (PACE_CLASS_EFFECTS (paceClass car)) \<le> fieldSize race"
  shows "predictedFinishPosition (simulateRace race car strat tp) \<le> fieldSize race"
  using final_position_upper[OF assms(1), of strat tp] assms(2)
  by (simp add: simulateRace_def Let_def)

text \<open>
  Where the field is at least as large as the pace class's ceiling, the range brackets
  the prediction.
\<close>

lemma variance_cases:
  "(if riskProfile car = aggressive then 2
    else if riskProfile car = conservative then 1 else 1 :: int) =
   (if riskProfile car = aggressive then 2 else 1)"
  by simp

lemma range_formulas:
  fixes race :: RaceConfig and car :: CarProfile and strat :: Strategy and tp :: TrackProfile
  defines "r \<equiv> simulateRace race car strat tp"
  defines "pe \<equiv> PACE_CLASS_EFFECTS (paceClass car)"
  defines "v \<equiv> (if riskProfile car = aggressive then 2 else 1 :: int)"
  shows "range_min (predictedPositionRange r) =
           max (realisticCeiling pe) (predictedFinishPosition r - v)"
    and "range_max (predictedPositionRange r) =
           min (min (fieldSize race) (realisticFloor pe)) (predictedFinishPosition r + v + 1)"
  unfolding r_def pe_def v_def simulateRace_def Let_def variance_cases
  by simp_all

lemma range_brackets_prediction:
  assumes "startingGridPosition car \<le> fieldSize race"
    and "realisticCeiling (PACE_CLASS_EFFECTS (paceClass car)) \<le> fieldSize race"
  shows "range_min (predictedPositionRange (simulateRace race car strat tp))
           \<le> predictedFinishPosition (simulateRace race car strat tp)
       \<and> predictedFinishPosition (simulateRace race car strat tp)
           \<le> range_max (predictedPositionRange (simulateRace race car strat tp))"
  using predicted_le_field[OF assms, of strat tp] predicted_in_envelope[of car race strat tp]
  unfolding range_formulas by (simp split: if_splits)

section \<open>Properties of the parser\<close>


subsection \<open>Diagnostics are only ever added\<close>

lemma errorList_addError [simp]: "errorList (addError sect cur) \<noteq> []"
  by (simp add: addError_def)

lemma errorList_advance [simp]: "errorList (advance cur) = errorList cur"
  by (simp add: advance_def)

lemma errorList_skipEmpty [simp]: "errorList (skipEmpty lines cur) = errorList cur"
proof (induction lines cur rule: skipEmpty.induct)
  case (1 lines cur)
  then show ?case by (subst skipEmpty.simps) simp
qed

lemma errorList_skipToEnd [simp]: "errorList (skipToEnd lines cur) = errorList cur"
proof (induction lines cur rule: skipToEnd.induct)
  case (1 lines cur)
  then show ?case by (subst skipToEnd.simps) simp
qed

lemma isValid_as:
  "isValidWeather s \<Longrightarrow> asWeather s \<noteq> None"
  "isValidPaceClass s \<Longrightarrow> asPaceClass s \<noteq> None"
  "isValidRiskProfile s \<Longrightarrow> asRiskProfile s \<noteq> None"
  "isValidOvertaking s \<Longrightarrow> asOvertaking s \<noteq> None"
  "isValidAero s \<Longrightarrow> asAero s \<noteq> None"
  "isValidTire s \<Longrightarrow> asTire s \<noteq> None"
  by (auto simp: isValidWeather_def VALID_WEATHER_def asWeather_def
                 isValidPaceClass_def VALID_PACE_CLASS_def asPaceClass_def
                 isValidRiskProfile_def VALID_RISK_PROFILE_def asRiskProfile_def
                 isValidOvertaking_def VALID_OVERTAKING_def asOvertaking_def
                 isValidAero_def VALID_AERO_def asAero_def
                 isValidTire_def VALID_TIRES_def asTire_def)

lemma parseRace_no_errors:
  assumes "parseRace lines cur = (cur', res)" "errorList cur' = []"
  shows "errorList cur = [] \<and> (\<exists>rc. res = Some rc \<and> raceOK rc)"
  using assms unfolding parseRace_def Let_def raceOK_def
  by (auto split: if_splits option.splits prod.splits)

lemma parseCar_no_errors:
  assumes "parseCar lines cur = (cur', res)" "errorList cur' = []"
  shows "errorList cur = [] \<and> (\<exists>cp. res = Some cp \<and> carOK cp)"
  using assms unfolding parseCar_def Let_def carOK_def
  by (auto split: if_splits option.splits prod.splits)

lemma parseTrack_no_errors:
  assumes "parseTrack lines cur = (cur', aero, ov, ch)" "errorList cur' = []"
  shows "errorList cur = [] \<and> aero \<noteq> None \<and> ov \<noteq> None \<and> ch \<noteq> None"
  using assms unfolding parseTrack_def Let_def
  by (auto split: if_splits option.splits prod.splits dest: isValid_as)

lemma loop_cases:
  fixes l :: string
  assumes "\<not> lineIndex cur < length lines \<Longrightarrow> thesis"
    "lineIndex cur < length lines \<Longrightarrow> toUpperCase l = ''END'' \<Longrightarrow> thesis"
    "lineIndex cur < length lines \<Longrightarrow> toUpperCase l \<noteq> ''END'' \<Longrightarrow> l = [] \<Longrightarrow> thesis"
    "lineIndex cur < length lines \<Longrightarrow> toUpperCase l \<noteq> ''END'' \<Longrightarrow> l \<noteq> [] \<Longrightarrow>
        m = None \<Longrightarrow> thesis"
    "\<And>t. lineIndex cur < length lines \<Longrightarrow> toUpperCase l \<noteq> ''END'' \<Longrightarrow> l \<noteq> [] \<Longrightarrow>
        m = Some t \<Longrightarrow> thesis"
  shows thesis
  using assms by (cases m) auto

lemma parseStints_no_errors:
  "errorList (fst (parseStints lines cur acc)) = [] \<Longrightarrow>
     errorList cur = [] \<and>
     (\<exists>new. snd (parseStints lines cur acc) = acc @ new \<and> (\<forall>s\<in>set new. stintOK s))"
proof (induction lines cur acc rule: parseStints.induct)
  case (1 lines cur acc)
  define l where "l = trim (lines ! lineIndex cur)"
  show ?case
  proof (rule loop_cases[where cur = cur and lines = lines and l = l
                           and m = "match3 STINT_PATTERN l"])
    assume out: "\<not> lineIndex cur < length lines"
    then have "parseStints lines cur acc = (cur, acc)"
      by (subst parseStints.simps) simp
    with "1.prems" show ?thesis by simp
  next
    assume fin: "lineIndex cur < length lines" "toUpperCase l = ''END''"
    then have "parseStints lines cur acc = (advance cur, acc)"
      by (subst parseStints.simps) (simp add: l_def)
    with "1.prems" show ?thesis by simp
  next
    assume blank: "lineIndex cur < length lines" "toUpperCase l \<noteq> ''END''" "l = []"
    then have "parseStints lines cur acc = parseStints lines (advance cur) acc"
      by (subst parseStints.simps) (simp add: l_def)
    with "1.IH"(1)[OF blank(1) l_def blank(2,3)] "1.prems" show ?thesis by simp
  next
    assume bad: "lineIndex cur < length lines" "toUpperCase l \<noteq> ''END''" "l \<noteq> []"
        "match3 STINT_PATTERN l = None"
    then have "parseStints lines cur acc =
                 parseStints lines (advance (addError (Some ''STRATEGY'') cur)) acc"
      by (subst parseStints.simps) (simp add: l_def)
    with "1.IH"(2)[OF bad(1) l_def bad(2,3,4)] "1.prems" show ?thesis by simp
  next
    fix t
    assume stint: "lineIndex cur < length lines" "toUpperCase l \<noteq> ''END''" "l \<noteq> []"
        "match3 STINT_PATTERN l = Some t"
    obtain numStr tire lapsStr where t: "t = (numStr, tire, lapsStr)" by (cases t) auto
    define cur1 where "cur1 = (if \<not> isValidTire (toUpperCase tire)
                               then addError (Some ''STRATEGY'') cur else cur)"
    define cur2 where "cur2 = (if parseInt lapsStr < 1
                               then addError (Some ''STRATEGY'') cur1 else cur1)"
    define st where "st = \<lparr>sc_stintNumber = parseInt numStr, sc_tireCompound = toUpperCase tire,
                            sc_lapsInStint = parseInt lapsStr\<rparr>"
    have eq: "parseStints lines cur acc = parseStints lines (advance cur2) (acc @ [st])"
      using stint t by (subst parseStints.simps) (simp add: l_def Let_def cur1_def cur2_def st_def)
    have "errorList (fst (parseStints lines (advance cur2) (acc @ [st]))) = []"
      using "1.prems" unfolding eq .
    then have "errorList (advance cur2) = [] \<and>
       (\<exists>new. snd (parseStints lines (advance cur2) (acc @ [st])) = (acc @ [st]) @ new
              \<and> (\<forall>s\<in>set new. stintOK s))"
      unfolding st_def
      by (rule "1.IH"(3)[OF stint(1) l_def stint(2,3,4) t[symmetric] refl refl refl refl
                            cur1_def cur2_def])
    then obtain new where e2: "errorList (advance cur2) = []"
      and new: "snd (parseStints lines cur acc) = acc @ ([st] @ new)" "\<forall>s\<in>set new. stintOK s"
      unfolding eq by auto
    from e2 have "errorList cur = [] \<and> stintOK st"
      by (auto simp: cur2_def cur1_def stintOK_def st_def split: if_splits)
    with new show ?thesis by (intro conjI exI[of _ "[st] @ new"]) auto
  qed
qed

lemma parseTurns_no_errors:
  "errorList (fst (parseTurns lines cur acc)) = [] \<Longrightarrow> errorList cur = []"
proof (induction lines cur acc rule: parseTurns.induct)
  case (1 lines cur acc)
  define l where "l = trim (lines ! lineIndex cur)"
  show ?case
  proof (rule loop_cases[where cur = cur and lines = lines and l = l
                           and m = "match4 TURN_PATTERN l"])
    assume out: "\<not> lineIndex cur < length lines"
    then have "parseTurns lines cur acc = (cur, acc)"
      by (subst parseTurns.simps) simp
    with "1.prems" show ?thesis by simp
  next
    assume fin: "lineIndex cur < length lines" "toUpperCase l = ''END''"
    then have "parseTurns lines cur acc = (advance cur, acc)"
      by (subst parseTurns.simps) (simp add: l_def)
    with "1.prems" show ?thesis by simp
  next
    assume blank: "lineIndex cur < length lines" "toUpperCase l \<noteq> ''END''" "l = []"
    then have "parseTurns lines cur acc = parseTurns lines (advance cur) acc"
      by (subst parseTurns.simps) (simp add: l_def)
    with "1.IH"(1)[OF blank(1) l_def blank(2,3)] "1.prems" show ?thesis by simp
  next
    assume bad: "lineIndex cur < length lines" "toUpperCase l \<noteq> ''END''" "l \<noteq> []"
        "match4 TURN_PATTERN l = None"
    then have "parseTurns lines cur acc =
                 parseTurns lines (advance (addError (Some ''CRITICAL_TURNS'') cur)) acc"
      by (subst parseTurns.simps) (simp add: l_def)
    with "1.IH"(2)[OF bad(1) l_def bad(2,3,4)] "1.prems" show ?thesis by simp
  next
    fix t
    assume turn: "lineIndex cur < length lines" "toUpperCase l \<noteq> ''END''" "l \<noteq> []"
        "match4 TURN_PATTERN l = Some t"
    obtain numStr nm riskStr nt where t: "t = (numStr, nm, riskStr, nt)" by (cases t) auto
    define tn where "tn = \<lparr>turnNumber = parseInt numStr, turnName = nm,
        riskTags = map (\<lambda>t. toLowerCase (trim t)) (split_on (CHR '','') riskStr), turnNote = nt\<rparr>"
    have eq: "parseTurns lines cur acc = parseTurns lines (advance cur) (acc @ [tn])"
      using turn t by (subst parseTurns.simps) (simp add: l_def Let_def tn_def)
    have "errorList (fst (parseTurns lines (advance cur) (acc @ [tn]))) = []"
      using "1.prems" unfolding eq .
    then have "errorList (advance cur) = []"
      unfolding tn_def
      by (rule "1.IH"(3)[OF turn(1) l_def turn(2,3,4) t[symmetric] refl refl refl refl])
    then show ?thesis by simp
  qed
qed

lemma parsePwStints_no_errors:
  "errorList (fst (parsePwStints lines cur acc)) = [] \<Longrightarrow>
     errorList cur = [] \<and>
     (\<exists>new. snd (parsePwStints lines cur acc) = acc @ new \<and> (\<forall>s\<in>set new. pwStintOK s))"
proof (induction lines cur acc rule: parsePwStints.induct)
  case (1 lines cur acc)
  define l where "l = trim (lines ! lineIndex cur)"
  show ?case
  proof (rule loop_cases[where cur = cur and lines = lines and l = l
                           and m = "match2 PREVIOUS_WINNER_STINT_PATTERN l"])
    assume out: "\<not> lineIndex cur < length lines"
    then have "parsePwStints lines cur acc = (cur, acc)"
      by (subst parsePwStints.simps) simp
    with "1.prems" show ?thesis by simp
  next
    assume fin: "lineIndex cur < length lines" "toUpperCase l = ''END''"
    then have "parsePwStints lines cur acc = (advance cur, acc)"
      by (subst parsePwStints.simps) (simp add: l_def)
    with "1.prems" show ?thesis by simp
  next
    assume blank: "lineIndex cur < length lines" "toUpperCase l \<noteq> ''END''" "l = []"
    then have "parsePwStints lines cur acc = parsePwStints lines (advance cur) acc"
      by (subst parsePwStints.simps) (simp add: l_def)
    with "1.IH"(1)[OF blank(1) l_def blank(2,3)] "1.prems" show ?thesis by simp
  next
    assume bad: "lineIndex cur < length lines" "toUpperCase l \<noteq> ''END''" "l \<noteq> []"
        "match2 PREVIOUS_WINNER_STINT_PATTERN l = None"
    then have "parsePwStints lines cur acc =
                 parsePwStints lines (advance (addError (Some ''PREVIOUS_WINNER'') cur)) acc"
      by (subst parsePwStints.simps) (simp add: l_def)
    with "1.IH"(2)[OF bad(1) l_def bad(2,3,4)] "1.prems" show ?thesis by simp
  next
    fix t
    assume stint: "lineIndex cur < length lines" "toUpperCase l \<noteq> ''END''" "l \<noteq> []"
        "match2 PREVIOUS_WINNER_STINT_PATTERN l = Some t"
    obtain tire lapsStr where t: "t = (tire, lapsStr)" by (cases t) auto
    define cur1 where "cur1 = (if \<not> isValidTire (toUpperCase tire)
                               then addError (Some ''PREVIOUS_WINNER'') cur else cur)"
    define st where "st = \<lparr>pw_tireCompound = toUpperCase tire, pw_laps = parseInt lapsStr\<rparr>"
    have eq: "parsePwStints lines cur acc = parsePwStints lines (advance cur1) (acc @ [st])"
      using stint t by (subst parsePwStints.simps) (simp add: l_def Let_def cur1_def st_def)
    have "errorList (fst (parsePwStints lines (advance cur1) (acc @ [st]))) = []"
      using "1.prems" unfolding eq .
    then have "errorList (advance cur1) = [] \<and>
       (\<exists>new. snd (parsePwStints lines (advance cur1) (acc @ [st])) = (acc @ [st]) @ new
              \<and> (\<forall>s\<in>set new. pwStintOK s))"
      unfolding st_def
      by (rule "1.IH"(3)[OF stint(1) l_def stint(2,3,4) t[symmetric] refl refl cur1_def])
    then obtain new where e2: "errorList (advance cur1) = []"
      and new: "snd (parsePwStints lines cur acc) = acc @ ([st] @ new)" "\<forall>s\<in>set new. pwStintOK s"
      unfolding eq by auto
    from e2 have "errorList cur = [] \<and> pwStintOK st"
      by (auto simp: cur1_def pwStintOK_def st_def split: if_splits)
    with new show ?thesis by (intro conjI exI[of _ "[st] @ new"]) auto
  qed
qed

lemma parseStrategy_no_errors:
  assumes "parseStrategy lines cur = (cur', res)" "errorList cur' = []"
  shows "errorList cur = [] \<and>
         (\<exists>sg. res = Some sg \<and> sc_stints sg \<noteq> [] \<and> (\<forall>s\<in>set (sc_stints sg). stintOK s))"
proof -
  define c where "c = skipEmpty lines cur"
  obtain c1 stnts where ps: "parseStints lines (advance c) [] = (c1, stnts)"
    by (cases "parseStints lines (advance c) []") auto
  from assms have "lineIndex c < length lines
      \<and> match1 STRATEGY_START_PATTERN (trim (lines ! lineIndex c)) \<noteq> None
      \<and> errorList c1 = [] \<and> stnts \<noteq> []
      \<and> (\<exists>lbl. res = Some \<lparr>sc_label = lbl, sc_stints = stnts\<rparr>)"
    unfolding parseStrategy_def Let_def c_def[symmetric]
    by (auto simp: ps split: if_splits option.splits)
  moreover from this parseStints_no_errors[of lines "advance c" "[]"] ps
  have "errorList c = [] \<and> (\<forall>s\<in>set stnts. stintOK s)" by auto
  ultimately show ?thesis by (auto simp: c_def)
qed

lemma parseCriticalTurns_no_errors:
  assumes "errorList (fst (parseCriticalTurns lines cur)) = []"
  shows "errorList cur = []"
proof -
  define c where "c = skipEmpty lines cur"
  have "errorList c = []"
    using assms parseTurns_no_errors[of lines "advance c" "[]"]
    unfolding parseCriticalTurns_def Let_def c_def[symmetric]
    by (auto split: if_splits)
  then show ?thesis by (simp add: c_def)
qed

lemma parsePreviousWinner_no_errors:
  assumes "parsePreviousWinner lines cur = (cur', res)" "errorList cur' = []"
  shows "errorList cur = [] \<and> (\<forall>pw. res = Some pw \<longrightarrow> (\<forall>s\<in>set (pw_stints pw). pwStintOK s))"
proof -
  define c where "c = skipEmpty lines cur"
  define c1 where "c1 = skipEmpty lines (advance c)"
  have ec: "errorList c = errorList cur" "errorList c1 = errorList cur"
    by (simp_all add: c_def c1_def)
  show ?thesis
  proof (cases "lineIndex c < length lines
              \<and> toUpperCase (trim (lines ! lineIndex c)) = ''PREVIOUS_WINNER''")
    case False
    with assms ec show ?thesis
      unfolding parsePreviousWinner_def Let_def c_def[symmetric]
      by (auto split: if_splits)
  next
    case opened: True
    show ?thesis
    proof (cases "lineIndex c1 < length lines")
      case False
      with assms opened ec show ?thesis
        unfolding parsePreviousWinner_def Let_def c_def[symmetric] c1_def[symmetric]
        by (auto split: if_splits)
    next
      case inb: True
      show ?thesis
      proof (cases "match2 PREVIOUS_WINNER_YEAR_PATTERN (trim (lines ! lineIndex c1))")
        case None
        with assms opened inb ec show ?thesis
          unfolding parsePreviousWinner_def Let_def c_def[symmetric] c1_def[symmetric]
          by (auto split: if_splits)
      next
        case (Some yl)
        obtain yearStr lbl where yl: "yl = (yearStr, lbl)" by (cases yl) auto
        define c2 where "c2 = skipEmpty lines (advance c1)"
        obtain c3 pwSt where pp: "parsePwStints lines (advance c2) [] = (c3, pwSt)"
          by (cases "parsePwStints lines (advance c2) []") auto
        have e: "errorList c2 = errorList cur"
          by (simp add: c2_def c1_def c_def)
        from parsePwStints_no_errors[of lines "advance c2" "[]"] pp
        have pw: "errorList c3 = [] \<Longrightarrow> errorList c2 = [] \<and> (\<forall>s\<in>set pwSt. pwStintOK s)"
          by auto
        from assms opened inb Some yl show ?thesis
          unfolding parsePreviousWinner_def Let_def c_def[symmetric] c1_def[symmetric]
          apply (simp add: c2_def[symmetric] pp split: if_splits)
          using e pw by auto
      qed
    qed
  qed
qed

subsection \<open>The shape of the result\<close>

lemma parseStrategyDSL_finish:
  "parseStrategyDSL dslText =
     (let lines = map trimEnd (split_on (CHR 0x0A) dslText);
          r1 = parseRace lines \<lparr>lineIndex = 0, errorList = []\<rparr>;
          r2 = parseCar lines (fst r1);
          r3 = parseTrack lines (fst r2);
          r4 = parseStrategy lines (fst r3);
          r5 = parseCriticalTurns lines (fst r4);
          r6 = parsePreviousWinner lines (fst r5)
      in finish dslText (fst r6) (snd r1) (snd r2) (fst (snd r3)) (fst (snd (snd r3)))
           (snd (snd (snd r3))) (snd r4) (snd r5) (snd r6))"
  unfolding parseStrategyDSL_def finish_def Let_def
  by (simp add: case_prod_beta)

lemma finish_exclusive:
  assumes "r = finish dslText cur6 raceCfg carPrf trackAero trackOvertaking trackChance strat turns pw"
  shows "(success r \<and> data r \<noteq> None \<and> errors r = [])
       \<or> (\<not> success r \<and> data r = None \<and> errors r \<noteq> [])"
  unfolding assms finish_def Let_def
  by (simp split: option.splits)

lemma finish_warnings:
  "warnings (finish dslText cur6 raceCfg carPrf trackAero trackOvertaking trackChance strat turns pw)
     = postParseWarnings raceCfg strat"
  unfolding finish_def Let_def by (simp split: option.splits)

lemma finish_success:
  assumes "data (finish dslText cur6 raceCfg carPrf trackAero trackOvertaking trackChance strat
                   turns pw) = Some d"
  shows "errorList cur6 = []
       \<and> buildDocument raceCfg carPrf trackAero trackOvertaking trackChance strat turns pw = Some d
       \<and> (\<forall>rc cp. raceCfg = Some rc \<longrightarrow> carPrf = Some cp
             \<longrightarrow> cp_startingGridPosition cp \<le> rc_fieldSize rc)"
  using assms unfolding finish_def Let_def
  by (auto split: option.splits if_splits)

lemma those_castStint:
  "those (map castStint xs) = Some ys \<Longrightarrow> map lapsInStint ys = map sc_lapsInStint xs"
proof (induction xs arbitrary: ys)
  case Nil
  then show ?case by simp
next
  case (Cons x xs)
  then show ?case
    by (auto simp: castStint_def split: option.splits)
qed

lemma buildDocument_fields:
  assumes "buildDocument raceCfg carPrf trackAero trackOvertaking trackChance strat turns pw = Some d"
  shows "\<exists>rc cp sg. raceCfg = Some rc \<and> carPrf = Some cp \<and> strat = Some sg
           \<and> totalLaps (raceConfig d) = rc_totalLaps rc
           \<and> fieldSize (raceConfig d) = rc_fieldSize rc
           \<and> startingGridPosition (carProfile d) = cp_startingGridPosition cp
           \<and> map lapsInStint (stints (strategy d)) = map sc_lapsInStint (sc_stints sg)"
  using assms unfolding buildDocument_def
  by (auto split: option.splits dest: those_castStint)

text \<open>What an empty diagnostics list at the end says about every section.\<close>

lemma sections_no_errors:
  fixes lines :: "string list"
  defines "r1 \<equiv> parseRace lines \<lparr>lineIndex = 0, errorList = []\<rparr>"
  defines "r2 \<equiv> parseCar lines (fst r1)"
  defines "r3 \<equiv> parseTrack lines (fst r2)"
  defines "r4 \<equiv> parseStrategy lines (fst r3)"
  defines "r5 \<equiv> parseCriticalTurns lines (fst r4)"
  defines "r6 \<equiv> parsePreviousWinner lines (fst r5)"
  assumes e6: "errorList (fst r6) = []"
  shows "(\<exists>rc. snd r1 = Some rc \<and> raceOK rc)
       \<and> (\<exists>cp. snd r2 = Some cp \<and> carOK cp)
       \<and> fst (snd r3) \<noteq> None \<and> fst (snd (snd r3)) \<noteq> None \<and> snd (snd (snd r3)) \<noteq> None
       \<and> (\<exists>sg. snd r4 = Some sg \<and> sc_stints sg \<noteq> [] \<and> (\<forall>s\<in>set (sc_stints sg). stintOK s))
       \<and> (\<forall>pw. snd r6 = Some pw \<longrightarrow> (\<forall>s\<in>set (pw_stints pw). pwStintOK s))"
proof -
  have p6: "errorList (fst r5) = [] \<and>
            (\<forall>pw. snd r6 = Some pw \<longrightarrow> (\<forall>s\<in>set (pw_stints pw). pwStintOK s))"
    using parsePreviousWinner_no_errors[of lines "fst r5" "fst r6" "snd r6"] e6
    by (simp add: r6_def)
  then have e4: "errorList (fst r4) = []"
    using parseCriticalTurns_no_errors[of lines "fst r4"] by (simp add: r5_def)
  then have p4: "errorList (fst r3) = [] \<and>
      (\<exists>sg. snd r4 = Some sg \<and> sc_stints sg \<noteq> [] \<and> (\<forall>s\<in>set (sc_stints sg). stintOK s))"
    using parseStrategy_no_errors[of lines "fst r3" "fst r4" "snd r4"] by (simp add: r4_def)
  then have p3: "errorList (fst r2) = [] \<and> fst (snd r3) \<noteq> None \<and> fst (snd (snd r3)) \<noteq> None
                 \<and> snd (snd (snd r3)) \<noteq> None"
    using parseTrack_no_errors[of lines "fst r2" "fst r3" "fst (snd r3)" "fst (snd (snd r3))"
                                  "snd (snd (snd r3))"]
    by (simp add: r3_def)
  then have p2: "errorList (fst r1) = [] \<and> (\<exists>cp. snd r2 = Some cp \<and> carOK cp)"
    using parseCar_no_errors[of lines "fst r1" "fst r2" "snd r2"] by (simp add: r2_def)
  then have p1: "\<exists>rc. snd r1 = Some rc \<and> raceOK rc"
    using parseRace_no_errors[of lines "\<lparr>lineIndex = 0, errorList = []\<rparr>" "fst r1" "snd r1"]
    by (simp add: r1_def)
  from p1 p2 p3 p4 p6 show ?thesis by blast
qed

lemma stintOK_list_all:
  assumes "map lapsInStint ys = map sc_lapsInStint xs" "\<forall>s\<in>set xs. stintOK s"
  shows "list_all (\<lambda>s. 1 \<le> lapsInStint s) ys"
proof -
  have "list_all (\<lambda>n. 1 \<le> n) (map sc_lapsInStint xs)"
    using assms(2) by (simp add: list_all_iff stintOK_def)
  then have "list_all (\<lambda>n. 1 \<le> n) (map lapsInStint ys)" by (simp add: assms(1))
  then show ?thesis by (simp add: list_all_iff)
qed

lemma parse_success_valid:
  assumes "data (parseStrategyDSL dslText) = Some d"
  shows "validDocument d"
proof -
  define lines where "lines = map trimEnd (split_on (CHR 0x0A) dslText)"
  define r1 where "r1 = parseRace lines \<lparr>lineIndex = 0, errorList = []\<rparr>"
  define r2 where "r2 = parseCar lines (fst r1)"
  define r3 where "r3 = parseTrack lines (fst r2)"
  define r4 where "r4 = parseStrategy lines (fst r3)"
  define r5 where "r5 = parseCriticalTurns lines (fst r4)"
  define r6 where "r6 = parsePreviousWinner lines (fst r5)"
  have eq: "parseStrategyDSL dslText =
      finish dslText (fst r6) (snd r1) (snd r2) (fst (snd r3)) (fst (snd (snd r3)))
           (snd (snd (snd r3))) (snd r4) (snd r5) (snd r6)"
    unfolding parseStrategyDSL_finish Let_def r1_def r2_def r3_def r4_def r5_def r6_def lines_def ..
  from finish_success[OF assms[unfolded eq]]
  have e6: "errorList (fst r6) = []"
    and bd: "buildDocument (snd r1) (snd r2) (fst (snd r3)) (fst (snd (snd r3)))
               (snd (snd (snd r3))) (snd r4) (snd r5) (snd r6) = Some d"
    and grid: "\<And>rc cp. snd r1 = Some rc \<Longrightarrow> snd r2 = Some cp
                 \<Longrightarrow> cp_startingGridPosition cp \<le> rc_fieldSize rc"
    by auto
  from sections_no_errors[of lines] e6
  obtain rc sg where rc: "snd r1 = Some rc" "raceOK rc"
    and sg: "snd r4 = Some sg" "sc_stints sg \<noteq> []" "\<forall>s\<in>set (sc_stints sg). stintOK s"
    unfolding r1_def r2_def r3_def r4_def r5_def r6_def by blast
  from buildDocument_fields[OF bd] rc sg
  obtain cp where cp: "snd r2 = Some cp"
    and f: "totalLaps (raceConfig d) = rc_totalLaps rc"
           "fieldSize (raceConfig d) = rc_fieldSize rc"
           "startingGridPosition (carProfile d) = cp_startingGridPosition cp"
           "map lapsInStint (stints (strategy d)) = map sc_lapsInStint (sc_stints sg)"
    by auto
  have "stints (strategy d) \<noteq> []"
    using f(4) sg(2) by (metis map_is_Nil_conv)
  moreover have "list_all (\<lambda>s. 1 \<le> lapsInStint s) (stints (strategy d))"
    using stintOK_list_all[OF f(4) sg(3)] .
  ultimately show ?thesis
    using rc(2) grid[OF rc(1) cp] f(1,2,3) by (simp add: validDocument_def raceOK_def)
qed

lemma those_castStint_Some:
  "\<forall>s\<in>set xs. stintOK s \<Longrightarrow> those (map castStint xs) \<noteq> None"
proof (induction xs)
  case Nil
  then show ?case by simp
next
  case (Cons x xs)
  then have "asTire (sc_tireCompound x) \<noteq> None"
    using isValid_as(6) by (simp add: stintOK_def)
  with Cons show ?case by (auto simp: castStint_def)
qed

lemma those_castPwStint_Some:
  "\<forall>s\<in>set xs. pwStintOK s \<Longrightarrow> those (map castPwStint xs) \<noteq> None"
proof (induction xs)
  case Nil
  then show ?case by simp
next
  case (Cons x xs)
  then have "asTire (pw_tireCompound x) \<noteq> None"
    using isValid_as(6) by (simp add: pwStintOK_def)
  with Cons show ?case by (auto simp: castPwStint_def)
qed

text \<open>
  Once the diagnostics list is empty the document can be put together: the source's
  branch ``Missing required sections'' is never taken.
\<close>

lemma no_errors_buildDocument:
  fixes lines :: "string list"
  defines "r1 \<equiv> parseRace lines \<lparr>lineIndex = 0, errorList = []\<rparr>"
  defines "r2 \<equiv> parseCar lines (fst r1)"
  defines "r3 \<equiv> parseTrack lines (fst r2)"
  defines "r4 \<equiv> parseStrategy lines (fst r3)"
  defines "r5 \<equiv> parseCriticalTurns lines (fst r4)"
  defines "r6 \<equiv> parsePreviousWinner lines (fst r5)"
  assumes e6: "errorList (fst r6) = []"
  shows "buildDocument (snd r1) (snd r2) (fst (snd r3)) (fst (snd (snd r3)))
           (snd (snd (snd r3))) (snd r4) (snd r5) (snd r6) \<noteq> None"
proof -
  from sections_no_errors[of lines] e6
  obtain rc cp aero ov ch sg where s:
    "snd r1 = Some rc" "raceOK rc" "snd r2 = Some cp" "carOK cp"
    "fst (snd r3) = Some aero" "fst (snd (snd r3)) = Some ov" "snd (snd (snd r3)) = Some ch"
    "snd r4 = Some sg" "\<forall>s\<in>set (sc_stints sg). stintOK s"
    and pw: "\<forall>pw. snd r6 = Some pw \<longrightarrow> (\<forall>s\<in>set (pw_stints pw). pwStintOK s)"
    unfolding r1_def r2_def r3_def r4_def r5_def r6_def by blast
  have w: "asWeather (rc_weather rc) \<noteq> None" "asPaceClass (cp_paceClass cp) \<noteq> None"
    "asRiskProfile (cp_riskProfile cp) \<noteq> None"
    using s(2,4) isValid_as(1,2,3) by (simp_all add: raceOK_def carOK_def)
  have st: "those (map castStint (sc_stints sg)) \<noteq> None"
    using s(9) by (rule those_castStint_Some)
  have p: "(case snd r6 of None \<Rightarrow> Some None
            | Some pw \<Rightarrow> map_option Some (castPreviousWinner pw)) \<noteq> None"
    using pw those_castPwStint_Some
    by (auto simp: castPreviousWinner_def split: option.splits)
  show ?thesis
    using s w st p unfolding buildDocument_def
    by (auto split: option.splits)
qed

subsection \<open>The lap-count warning\<close>

lemma foldl_laps:
  "foldl (\<lambda>sum s. sum + sc_lapsInStint s) a xs = a + sum_list (map sc_lapsInStint xs)"
  by (induction xs arbitrary: a) simp_all

lemma mismatch_mentions:
  "sublist ''does not match race laps'' (lapMismatchWarning a b)"
proof -
  have "lapMismatchWarning a b =
          (''Total stint laps ('' @ show_int a @ '') '') @ ''does not match race laps''
            @ ('' ('' @ show_int b @ ''). '' @ ''This may affect simulation accuracy.'')"
    by (simp add: lapMismatchWarning_def)
  then show ?thesis unfolding sublist_def by blast
qed

lemma wet_does_not_mention:
  "\<not> sublist ''does not match race laps'' wetTireWarning"
  unfolding wetTireWarning_def by code_simp

lemma postParseWarnings_count:
  "length (filter (sublist ''does not match race laps'') (postParseWarnings (Some rc) (Some sg))) =
     (if sum_list (map sc_lapsInStint (sc_stints sg)) \<noteq> rc_totalLaps rc then 1 else 0)"
  unfolding postParseWarnings_def Let_def
  by (simp add: foldl_laps mismatch_mentions wet_does_not_mention)

subsection \<open>What a successful parse guarantees\<close>

lemma valid_grid:
  "data (parseStrategyDSL dslText) = Some d \<Longrightarrow>
     startingGridPosition (carProfile d) \<le> fieldSize (raceConfig d)"
  by (drule parse_success_valid) (simp add: validDocument_def)

lemma valid_stints:
  "data (parseStrategyDSL dslText) = Some d \<Longrightarrow>
     \<forall>stint\<in>set (stints (strategy d)). 1 \<le> lapsInStint stint"
  by (drule parse_success_valid) (simp add: validDocument_def list_all_iff)

lemma parse_via_finish:
  "\<exists>cur6 raceCfg carPrf trackAero trackOvertaking trackChance strat turns previousWinner.
     parseStrategyDSL dslText =
       finish dslText cur6 raceCfg carPrf trackAero trackOvertaking trackChance strat turns
         previousWinner"
  unfolding parseStrategyDSL_finish Let_def by blast

lemma parse_no_errors_success:
  assumes "errors (parseStrategyDSL dslText) = []"
  shows "success (parseStrategyDSL dslText) \<and> (\<exists>d. data (parseStrategyDSL dslText) = Some d)"
proof -
  obtain cur6 raceCfg carPrf trackAero trackOvertaking trackChance strat turns previousWinner
    where "parseStrategyDSL dslText =
       finish dslText cur6 raceCfg carPrf trackAero trackOvertaking trackChance strat turns
         previousWinner"
    using parse_via_finish by blast
  from finish_exclusive[OF this] assms show ?thesis by auto
qed

lemma parse_warnings_count:
  assumes "data (parseStrategyDSL dslText) = Some d"
  shows "length (filter (sublist ''does not match race laps'')
                   (warnings (parseStrategyDSL dslText))) =
           (if sum_list (map lapsInStint (stints (strategy d))) \<noteq> totalLaps (raceConfig d)
            then 1 else 0)"
proof -
  obtain cur6 raceCfg carPrf trackAero trackOvertaking trackChance strat turns previousWinner
    where eq: "parseStrategyDSL dslText =
       finish dslText cur6 raceCfg carPrf trackAero trackOvertaking trackChance strat turns
         previousWinner"
    using parse_via_finish by blast
  from finish_success[OF assms[unfolded eq]]
  have bd: "buildDocument raceCfg carPrf trackAero trackOvertaking trackChance strat turns
              previousWinner = Some d"
    by simp
  from buildDocument_fields[OF bd]
  obtain rc sg where rc: "raceCfg = Some rc" and sg: "strat = Some sg"
    and f: "totalLaps (raceConfig d) = rc_totalLaps rc"
           "map lapsInStint (stints (strategy d)) = map sc_lapsInStint (sc_stints sg)"
    by auto
  have "warnings (parseStrategyDSL dslText) = postParseWarnings (Some rc) (Some sg)"
    unfolding eq finish_warnings rc sg ..
  then show ?thesis
    by (simp only: postParseWarnings_count f)
qed

section \<open>The example documents, evaluated\<close>

lemma sprint_parse:
  "parseStrategyDSL sprintDSL =
     \<lparr>success = True, data = Some sprintDoc, errors = [], warnings = [], rawDSL = sprintDSL\<rparr>"
  by code_simp

lemma short_parse:
  "parseStrategyDSL shortDSL =
     \<lparr>success = True, data = Some shortDoc, errors = [],
      warnings = [''Total stint laps (4) does not match race laps (5). ''
                    @ ''This may affect simulation accuracy.''],
      rawDSL = shortDSL\<rparr>"
  by code_simp

lemma smallField_parse:
  "parseStrategyDSL smallFieldDSL =
     \<lparr>success = True, data = Some smallFieldDoc, errors = [], warnings = [],
      rawDSL = smallFieldDSL\<rparr>"
  by code_simp

lemma sprint_simulation:
  "simulateParsed sprintDoc =
     \<lparr>predictedFinishPosition = 9,
      predictedPositionRange = \<lparr>range_min = 8, range_max = 11\<rparr>,
      positionsGained = 0,
      stintMetrics =
        [\<lparr>smStintNumber = 1, smTireCompound = SOFT, smTotalLaps = 3,
          totalDegradationLoss = 3 / 5, startPosition = 9, endPosition = 9\<rparr>,
         \<lparr>smStintNumber = 2, smTireCompound = MEDIUM, smTotalLaps = 2,
          totalDegradationLoss = 3 / 16, startPosition = 9, endPosition = 9\<rparr>],
      lapData =
        [\<lparr>lapNumber = 1, ldStintNumber = 1, ldTireCompound = SOFT,
          tireWear = 2 / 45, position = 9, event = Some start\<rparr>,
         \<lparr>lapNumber = 2, ldStintNumber = 1, ldTireCompound = SOFT,
          tireWear = 4 / 45, position = 9, event = None\<rparr>,
         \<lparr>lapNumber = 3, ldStintNumber = 1, ldTireCompound = SOFT,
          tireWear = 2 / 15, position = 9, event = Some pit_stop\<rparr>,
         \<lparr>lapNumber = 4, ldStintNumber = 2, ldTireCompound = MEDIUM,
          tireWear = 2 / 75, position = 9, event = None\<rparr>,
         \<lparr>lapNumber = 5, ldStintNumber = 2, ldTireCompound = MEDIUM,
          tireWear = 4 / 75, position = 9, event = None\<rparr>],
      totalPitStops = 1\<rparr>"
  by code_simp

lemma smallField_simulation:
  "predictedFinishPosition (simulateParsed smallFieldDoc) = 10 \<and>
   predictedPositionRange (simulateParsed smallFieldDoc) = \<lparr>range_min = 10, range_max = 5\<rparr> \<and>
   map position (lapData (simulateParsed smallFieldDoc)) = [3, 3, 3, 3, 3]"
  by code_simp

section \<open>The statements of the specification\<close>

text \<open>
  C1. The predicted finish position of a document accepted by the parser is claimed to
  lie within the pace class's ceiling and floor and within \<open>[1, fieldSize]\<close>. The first
  half holds for every input (\<open>predicted_in_envelope\<close>). The second fails: the prediction
  is raised to the pace class's ceiling whatever the field size is, while the upper end
  of the range, computed two lines below it, is capped by the field size. The parser
  accepts a backmarker (ceiling 10) in a field of five cars, and the simulation predicts
  that it finishes tenth.
\<close>

theorem predicted_finish_outside_field:
  "data (parseStrategyDSL smallFieldDSL) = Some smallFieldDoc \<and>
   fieldSize (raceConfig smallFieldDoc) = 5 \<and>
   map position (lapData (simulateParsed smallFieldDoc)) = [3, 3, 3, 3, 3] \<and>
   predictedFinishPosition (simulateParsed smallFieldDoc) = 10"
  using smallField_parse smallField_simulation by (simp add: smallFieldDoc_def)

text \<open>
  C2. The predicted finish position is claimed to lie between the two ends of the
  predicted range. For the same document the range is \<open>[10, 5]\<close> around a prediction
  of 10: the upper end is capped by the field size and the prediction is not. With a
  field at least as large as the ceiling the claim holds (\<open>range_brackets_prediction\<close>).
\<close>

theorem predicted_finish_above_range:
  "data (parseStrategyDSL smallFieldDSL) = Some smallFieldDoc \<and>
   predictedFinishPosition (simulateParsed smallFieldDoc) = 10 \<and>
   range_max (predictedPositionRange (simulateParsed smallFieldDoc)) = 5"
  using smallField_parse smallField_simulation by simp

text \<open>
  C3. \<open>parseStrategyDSL\<close> is total: it is a function of the input string, its loops are
  defined with termination proofs (each moves the line cursor forward), and nothing in
  it can fail. Its result is exclusive for every input: either success with a document
  and no diagnostics, or failure with no document and at least one diagnostic.
\<close>

theorem parse_total_exclusive:
  "(success (parseStrategyDSL dslText) \<and> (\<exists>d. data (parseStrategyDSL dslText) = Some d)
      \<and> errors (parseStrategyDSL dslText) = [])
   \<or> (\<not> success (parseStrategyDSL dslText) \<and> data (parseStrategyDSL dslText) = None
      \<and> errors (parseStrategyDSL dslText) \<noteq> [])"
proof -
  obtain cur6 raceCfg carPrf trackAero trackOvertaking trackChance strat turns previousWinner
    where "parseStrategyDSL dslText =
       finish dslText cur6 raceCfg carPrf trackAero trackOvertaking trackChance strat turns
         previousWinner"
    using parse_via_finish by blast
  from finish_exclusive[OF this] show ?thesis by auto
qed

theorem parse_total_exclusive_witness:
  "success (parseStrategyDSL sprintDSL) \<and> data (parseStrategyDSL sprintDSL) = Some sprintDoc
     \<and> errors (parseStrategyDSL sprintDSL) = []
   \<and> \<not> success (parseStrategyDSL []) \<and> data (parseStrategyDSL []) = None
     \<and> errors (parseStrategyDSL []) \<noteq> []"
proof -
  have a: "data (parseStrategyDSL sprintDSL) = Some sprintDoc"
    by (simp add: sprint_parse)
  have b: "errors (parseStrategyDSL []) =
             [\<lparr>line = 2, sectionName = Some ''RACE''\<rparr>, \<lparr>line = 2, sectionName = Some ''CAR''\<rparr>,
              \<lparr>line = 2, sectionName = Some ''TRACK''\<rparr>,
              \<lparr>line = 2, sectionName = Some ''STRATEGY''\<rparr>]"
    by code_simp
  from a b parse_total_exclusive[of sprintDSL] parse_total_exclusive[of "[]"]
  show ?thesis by auto
qed

text \<open>
  C5. The claim gives the range as the prediction plus and minus a variance of 1
  (conservative, balanced) or 2 (aggressive), both ends clamped into
  \<open>[ceiling, min(fieldSize, floor)]\<close>. The code adds one more place to the upper end:
  for the balanced midfield car of the sprint example, predicted ninth, the range is
  \<open>[8, 11]\<close> and not \<open>[8, 10]\<close>.
\<close>

theorem position_range_counterexample:
  "data (parseStrategyDSL sprintDSL) = Some sprintDoc \<and>
   predictedPositionRange (simulateParsed sprintDoc) = \<lparr>range_min = 8, range_max = 11\<rparr> \<and>
   claimedPositionRange (raceConfig sprintDoc) (carProfile sprintDoc)
     (predictedFinishPosition (simulateParsed sprintDoc)) = \<lparr>range_min = 8, range_max = 10\<rparr>"
proof -
  have "paceClass (carProfile sprintDoc) = midfield"
    "riskProfile (carProfile sprintDoc) = balanced" "fieldSize (raceConfig sprintDoc) = 20"
    by (simp_all add: sprintDoc_def)
  then show ?thesis
    by (simp add: sprint_parse sprint_simulation claimedPositionRange_def Let_def)
qed

text \<open>
  C5, amended. For every document accepted by the parser the range is
  \<open>[max(ceiling, p - v), min(min(fieldSize, floor), p + v + 1)]\<close>, where \<open>p\<close> is the
  predicted finish position and \<open>v\<close> is 2 for the aggressive risk profile and 1 for the
  other two; and where the field is at least as large as the pace class's ceiling, both
  ends lie within \<open>[ceiling, min(fieldSize, floor)]\<close>.
\<close>

theorem position_range_computed:
  assumes "data (parseStrategyDSL dslText) = Some d"
  shows "(let r = simulateParsed d;
              pe = PACE_CLASS_EFFECTS (paceClass (carProfile d));
              v = (if riskProfile (carProfile d) = aggressive then 2 else 1);
              lo = realisticCeiling pe;
              hi = min (fieldSize (raceConfig d)) (realisticFloor pe)
          in range_min (predictedPositionRange r) = max lo (predictedFinishPosition r - v)
           \<and> range_max (predictedPositionRange r) = min hi (predictedFinishPosition r + v + 1)
           \<and> (lo \<le> fieldSize (raceConfig d) \<longrightarrow>
                lo \<le> range_min (predictedPositionRange r)
              \<and> range_min (predictedPositionRange r) \<le> hi
              \<and> lo \<le> range_max (predictedPositionRange r)
              \<and> range_max (predictedPositionRange r) \<le> hi))"
proof -
  define race where "race = raceConfig d"
  define car where "car = carProfile d"
  define r where "r = simulateRace race car (strategy d) (trackProfile d)"
  define lo where "lo = realisticCeiling (PACE_CLASS_EFFECTS (paceClass car))"
  define fl where "fl = realisticFloor (PACE_CLASS_EFFECTS (paceClass car))"
  define v where "v = (if riskProfile car = aggressive then 2 else 1 :: int)"
  define p where "p = predictedFinishPosition r"
  have f: "range_min (predictedPositionRange r) = max lo (p - v)"
          "range_max (predictedPositionRange r) = min (min (fieldSize race) fl) (p + v + 1)"
    unfolding r_def lo_def fl_def v_def p_def by (rule range_formulas)+
  have env: "lo \<le> p" "p \<le> fl"
    using predicted_in_envelope[of car race "strategy d" "trackProfile d"]
    by (simp_all add: lo_def fl_def p_def r_def)
  have v: "1 \<le> v" by (simp add: v_def)
  have b: "lo \<le> max lo (p - v) \<and> max lo (p - v) \<le> min (fieldSize race) fl
         \<and> lo \<le> min (min (fieldSize race) fl) (p + v + 1)
         \<and> min (min (fieldSize race) fl) (p + v + 1) \<le> min (fieldSize race) fl"
    if "lo \<le> fieldSize race"
  proof -
    have "p \<le> fieldSize race"
      using predicted_le_field[of car race "strategy d" "trackProfile d"] that
        valid_grid[OF assms]
      by (simp add: lo_def p_def r_def race_def car_def)
    with env v that show ?thesis by (auto simp: min_def max_def)
  qed
  show ?thesis
    unfolding simulateParsed_def Let_def
    using f b by (simp add: r_def race_def car_def lo_def fl_def v_def p_def)
qed

theorem position_range_computed_witness:
  "data (parseStrategyDSL sprintDSL) = Some sprintDoc
   \<and> realisticCeiling (PACE_CLASS_EFFECTS (paceClass (carProfile sprintDoc))) = 5
   \<and> fieldSize (raceConfig sprintDoc) = 20
   \<and> predictedFinishPosition (simulateParsed sprintDoc) = 9
   \<and> range_min (predictedPositionRange (simulateParsed sprintDoc)) = max 5 (9 - 1)
   \<and> range_max (predictedPositionRange (simulateParsed sprintDoc)) = min (min 20 14) (9 + 1 + 1)
   \<and> 5 \<le> range_min (predictedPositionRange (simulateParsed sprintDoc))
   \<and> range_max (predictedPositionRange (simulateParsed sprintDoc)) \<le> min 20 14"
proof -
  have a: "data (parseStrategyDSL sprintDSL) = Some sprintDoc" by (simp add: sprint_parse)
  have b: "paceClass (carProfile sprintDoc) = midfield"
    "riskProfile (carProfile sprintDoc) = balanced" "fieldSize (raceConfig sprintDoc) = 20"
    by (simp_all add: sprintDoc_def)
  have c: "predictedFinishPosition (simulateParsed sprintDoc) = 9"
    by (simp add: sprint_simulation)
  from position_range_computed[OF a] a b c show ?thesis
    by (simp add: Let_def)
qed

text \<open>
  C6. The degradation added by a lap is stated to be the base term
  \<open>degradationRate \<times> weatherMultiplier \<times> tireManagement \<times> lapInStint\<close> up to the cliff
  lap, and beyond it the base term plus a penalty that ramps linearly over the ten laps
  after the cliff and is capped there. Up to the cliff lap this is what the code does.
  Beyond it the code ramps and caps the per-lap rate and then multiplies the rate by
  \<open>lapInStint\<close>, so what a lap gets on top of the base term is neither linear nor
  capped. For a soft tire (cliff lap 15) in normal weather with the balanced risk
  profile it is 0.192, 0.408 and 0.648 on laps 16 to 18, steps of 0.216 and 0.24, and
  3, 3.12 and 4.8 on laps 25, 26 and 40, all of them more than ten laps after the
  cliff. Lap 16 adds 1.472 and lap 40 adds 8, where a linear ramp of the same
  increment, capped after ten laps, gives 1.292 and 3.32.
\<close>

theorem tire_degradation_counterexample:
  "(let race = \<lparr>trackName = ''MONZA'', totalLaps = 53, weather = normal, fieldSize = 20\<rparr>;
        car = \<lparr>startingGridPosition = 12, paceClass = midfield, riskProfile = balanced,
               targetMinPosition = None\<rparr>;
        tp = \<lparr>aeroClassification = drag_reliant, overtakingDifficulty = medium,
              overtakingChance = Some 0.55, criticalTurns = [], previousWinnerStrategy = None\<rparr>;
        stint = \<lparr>stintNumber = 1, tireCompound = SOFT, lapsInStint = 40\<rparr>;
        added = (\<lambda>lapInStint.
                   stintDegradationLoss
                     (simulateLap race car tp stint True lapInStint (initialState car))
                   - stintDegradationLoss (initialState car));
        penalty = (\<lambda>lapInStint. added lapInStint - 0.08 * 1.0 * 1.0 * of_int lapInStint)
    in penalty 15 = 0 \<and> penalty 16 = 0.192 \<and> penalty 17 = 0.408 \<and> penalty 18 = 0.648
     \<and> penalty 25 = 3 \<and> penalty 26 = 3.12 \<and> penalty 40 = 4.8
     \<and> added 16 = 1.472 \<and> claimedTireDegradation SOFT 16 normal balanced = 1.292
     \<and> added 40 = 8 \<and> claimedTireDegradation SOFT 40 normal balanced = 3.32)"
  unfolding Let_def simulateLap_degradation
  by (simp add: calculateTireDegradation_def claimedTireDegradation_def or_default_def Let_def)

text \<open>
  C6, amended. On every simulated lap the degradation time that the lap adds (to the lap
  time and to the stint's running degradation loss) is a per-lap rate multiplied by
  \<open>lapInStint\<close>. The rate is \<open>degradationRate \<times> weatherMultiplier \<times> tireManagement\<close> as
  long as \<open>lapInStint\<close> is at most the compound's cliff lap. Beyond the cliff lap the
  rate grows by \<open>degradationRate \<times> cliffMultiplier - degradationRate\<close>, an increment that
  is not scaled by weather or risk, ramped linearly over the ten laps after the cliff,
  \<open>(lapInStint - cliffLap) / 10\<close>, and kept at its full value from there on. It is the
  rate that is ramped and capped: the lap's penalty is the increment times \<open>lapInStint\<close>.
\<close>

theorem tire_degradation_term:
  "stintDegradationLoss (simulateLap race car tp stint isLastStint lapInStint st)
     - stintDegradationLoss st =
     (let profile = TIRE_PROFILES (tireCompound stint);
          base = degradationRate profile * WEATHER_DEGRADATION_MULTIPLIER (weather race)
                   * tireManagement (RISK_PROFILE_EFFECTS (riskProfile car));
          cliffExtra = degradationRate profile * cliffMultiplier profile - degradationRate profile
      in if lapInStint \<le> cliffLap profile then
           base * of_int lapInStint
         else if lapInStint \<le> cliffLap profile + 10 then
           (base + cliffExtra * (of_int (lapInStint - cliffLap profile) / 10)) * of_int lapInStint
         else
           (base + cliffExtra) * of_int lapInStint)"
  unfolding simulateLap_degradation calculateTireDegradation_def Let_def weather_multiplier_nonzero
  by (simp add: min_def)

theorem tire_degradation_term_witness:
  "(let race = \<lparr>trackName = ''MONZA'', totalLaps = 53, weather = hot, fieldSize = 20\<rparr>;
        car = \<lparr>startingGridPosition = 12, paceClass = midfield, riskProfile = aggressive,
               targetMinPosition = None\<rparr>;
        tp = \<lparr>aeroClassification = drag_reliant, overtakingDifficulty = medium,
              overtakingChance = Some 0.55, criticalTurns = [], previousWinnerStrategy = None\<rparr>;
        stint = \<lparr>stintNumber = 1, tireCompound = SOFT, lapsInStint = 40\<rparr>;
        added = (\<lambda>lapInStint.
                   stintDegradationLoss
                     (simulateLap race car tp stint True lapInStint (initialState car))
                   - stintDegradationLoss (initialState car))
    in added 10 = 0.08 * 1.25 * 1.2 * 10
     \<and> added 20 = (0.08 * 1.25 * 1.2 + (0.08 * 2.5 - 0.08) * (5 / 10)) * 20
     \<and> added 40 = (0.08 * 1.25 * 1.2 + (0.08 * 2.5 - 0.08)) * 40)"
  unfolding Let_def
  by (simp add: tire_degradation_term Let_def)

text \<open>
  C7. A document that parses with no blocking diagnostic is a success whatever its
  stints add up to. When the sum of the stint laps differs from the race's total laps,
  exactly one of its warnings contains ``does not match race laps''; when the two are
  equal, none does.
\<close>

theorem lap_mismatch_warning:
  assumes "errors (parseStrategyDSL dslText) = []"
  shows "success (parseStrategyDSL dslText) \<and>
         (\<exists>d. data (parseStrategyDSL dslText) = Some d \<and>
            length (filter (sublist ''does not match race laps'')
                      (warnings (parseStrategyDSL dslText))) =
              (if sum_list (map lapsInStint (stints (strategy d))) \<noteq> totalLaps (raceConfig d)
               then 1 else 0))"
proof -
  from assms parse_no_errors_success[of dslText]
  obtain d where ok: "success (parseStrategyDSL dslText)"
    and d: "data (parseStrategyDSL dslText) = Some d"
    by auto
  from ok d parse_warnings_count[OF d] show ?thesis by blast
qed

theorem lap_mismatch_warning_witness:
  "errors (parseStrategyDSL shortDSL) = [] \<and> success (parseStrategyDSL shortDSL)
     \<and> sum_list (map lapsInStint (stints (strategy shortDoc))) = 4
     \<and> totalLaps (raceConfig shortDoc) = 5
     \<and> length (filter (sublist ''does not match race laps'')
                 (warnings (parseStrategyDSL shortDSL))) = 1
   \<and> errors (parseStrategyDSL sprintDSL) = [] \<and> success (parseStrategyDSL sprintDSL)
     \<and> sum_list (map lapsInStint (stints (strategy sprintDoc))) = 5
     \<and> totalLaps (raceConfig sprintDoc) = 5
     \<and> length (filter (sublist ''does not match race laps'')
                 (warnings (parseStrategyDSL sprintDSL))) = 0"
proof -
  have a: "errors (parseStrategyDSL shortDSL) = []"
    and a': "data (parseStrategyDSL shortDSL) = Some shortDoc"
    by (simp_all add: short_parse)
  have b: "errors (parseStrategyDSL sprintDSL) = []"
    and b': "data (parseStrategyDSL sprintDSL) = Some sprintDoc"
    by (simp_all add: sprint_parse)
  have c: "sum_list (map lapsInStint (stints (strategy shortDoc))) = 4"
    "totalLaps (raceConfig shortDoc) = 5"
    "sum_list (map lapsInStint (stints (strategy sprintDoc))) = 5"
    "totalLaps (raceConfig sprintDoc) = 5"
    by (simp_all add: shortDoc_def sprintDoc_def)
  from lap_mismatch_warning[OF a] lap_mismatch_warning[OF b] a a' b b' c
  show ?thesis by simp
qed

text \<open>
  C8. For every document accepted by the parser: every lap record's tire wear lies in
  \<open>[0, 1]\<close>; the wear trace is, stint after stint, the wear of laps \<open>1, 2, ...\<close> of that
  stint on its compound, which does not decrease from one lap to the next; and the record
  after a pit-stop lap carries the wear of lap 1 on the new stint's compound, every other
  record at least the wear of the record before it.
\<close>

theorem tire_wear_trace:
  assumes "data (parseStrategyDSL dslText) = Some d"
  shows "(let laps = lapData (simulateParsed d)
          in (\<forall>r\<in>set laps. 0 \<le> tireWear r \<and> tireWear r \<le> 1)
           \<and> map tireWear laps =
               concat (map (\<lambda>s. map (\<lambda>k. calculateTireWear k (tireCompound s)) [1..lapsInStint s])
                         (stints (strategy d)))
           \<and> (\<forall>k c. calculateTireWear k c \<le> calculateTireWear (k + 1) c)
           \<and> (\<forall>i. Suc i < length laps \<longrightarrow>
                (if event (laps ! i) = Some pit_stop
                 then tireWear (laps ! Suc i) = calculateTireWear 1 (ldTireCompound (laps ! Suc i))
                 else tireWear (laps ! i) \<le> tireWear (laps ! Suc i))))"
proof -
  define laps where "laps = lapData (simulateParsed d)"
  have ok: "wearOK laps"
    unfolding laps_def simulateParsed_def
    by (rule wearOK_simulateRace[OF valid_stints[OF assms]])
  then have "successively wearStep laps" by (simp add: wearOK_def)
  then have steps: "\<forall>i. Suc i < length laps \<longrightarrow> wearStep (laps ! i) (laps ! Suc i)"
    using successively_nth by blast
  have trace: "map tireWear laps =
      concat (map (\<lambda>s. map (\<lambda>k. calculateTireWear k (tireCompound s)) [1..lapsInStint s])
                (stints (strategy d)))"
    unfolding laps_def simulateParsed_def wear_simulateRace
    by (simp add: stintWear_def[abs_def])
  show ?thesis
    unfolding Let_def laps_def[symmetric]
    using ok steps trace calculateTireWear_mono
    by (simp add: wearOK_def wearStep_def)
qed

theorem tire_wear_trace_witness:
  "data (parseStrategyDSL sprintDSL) = Some sprintDoc
   \<and> map tireWear (lapData (simulateParsed sprintDoc)) = [2 / 45, 4 / 45, 2 / 15, 2 / 75, 4 / 75]
   \<and> map tireWear (lapData (simulateParsed sprintDoc)) =
       map (\<lambda>k. calculateTireWear k SOFT) [1, 2, 3] @ map (\<lambda>k. calculateTireWear k MEDIUM) [1, 2]
   \<and> event (lapData (simulateParsed sprintDoc) ! 2) = Some pit_stop
   \<and> tireWear (lapData (simulateParsed sprintDoc) ! 3) = calculateTireWear 1 MEDIUM
   \<and> tireWear (lapData (simulateParsed sprintDoc) ! 0) \<le> tireWear (lapData (simulateParsed sprintDoc) ! 1)"
proof -
  have a: "data (parseStrategyDSL sprintDSL) = Some sprintDoc" by (simp add: sprint_parse)
  have s: "stints (strategy sprintDoc) =
             [\<lparr>stintNumber = 1, tireCompound = SOFT, lapsInStint = 3\<rparr>,
              \<lparr>stintNumber = 2, tireCompound = MEDIUM, lapsInStint = 2\<rparr>]"
    by (simp add: sprintDoc_def)
  have u: "[1..3] = [1, 2, 3 :: int]" "[1..2] = [1, 2 :: int]" by (simp_all add: upto.simps)
  from tire_wear_trace[OF a]
  have t: "map tireWear (lapData (simulateParsed sprintDoc)) =
       map (\<lambda>k. calculateTireWear k SOFT) [1, 2, 3] @ map (\<lambda>k. calculateTireWear k MEDIUM) [1, 2]"
    and w: "\<forall>i. Suc i < length (lapData (simulateParsed sprintDoc)) \<longrightarrow>
                (if event (lapData (simulateParsed sprintDoc) ! i) = Some pit_stop
                 then tireWear (lapData (simulateParsed sprintDoc) ! Suc i) =
                        calculateTireWear 1 (ldTireCompound (lapData (simulateParsed sprintDoc) ! Suc i))
                 else tireWear (lapData (simulateParsed sprintDoc) ! i)
                        \<le> tireWear (lapData (simulateParsed sprintDoc) ! Suc i))"
    unfolding Let_def s by (simp_all add: u)
  have e: "event (lapData (simulateParsed sprintDoc) ! 2) = Some pit_stop"
    "event (lapData (simulateParsed sprintDoc) ! 0) = Some start"
    "ldTireCompound (lapData (simulateParsed sprintDoc) ! 3) = MEDIUM"
    "length (lapData (simulateParsed sprintDoc)) = 5"
    "map tireWear (lapData (simulateParsed sprintDoc)) = [2 / 45, 4 / 45, 2 / 15, 2 / 75, 4 / 75]"
    by (simp_all add: sprint_simulation)
  from w[rule_format, of 2] w[rule_format, of 0] e
  have "tireWear (lapData (simulateParsed sprintDoc) ! 3) = calculateTireWear 1 MEDIUM"
    "tireWear (lapData (simulateParsed sprintDoc) ! 0) \<le> tireWear (lapData (simulateParsed sprintDoc) ! 1)"
    by (simp_all add: numeral_3_eq_3)
  with a t e show ?thesis by simp
qed

text \<open>
  C9. For every document accepted by the parser, the \<open>totalLaps\<close> of the stint metrics
  add up to the number of lap records.
\<close>

theorem stint_laps_total:
  assumes "data (parseStrategyDSL dslText) = Some d"
  shows "sum_list (map smTotalLaps (stintMetrics (simulateParsed d))) =
           int (length (lapData (simulateParsed d)))"
proof -
  have "\<forall>stint\<in>set (stints (strategy d)). 0 \<le> lapsInStint stint"
    using valid_stints[OF assms] by auto
  then show ?thesis unfolding simulateParsed_def by (rule stint_laps_sum)
qed

theorem stint_laps_total_witness:
  "data (parseStrategyDSL sprintDSL) = Some sprintDoc
   \<and> map smTotalLaps (stintMetrics (simulateParsed sprintDoc)) = [3, 2]
   \<and> sum_list (map smTotalLaps (stintMetrics (simulateParsed sprintDoc))) = 5
   \<and> length (lapData (simulateParsed sprintDoc)) = 5"
proof -
  have a: "data (parseStrategyDSL sprintDSL) = Some sprintDoc" by (simp add: sprint_parse)
  have b: "map smTotalLaps (stintMetrics (simulateParsed sprintDoc)) = [3, 2]"
    by (simp add: sprint_simulation)
  from stint_laps_total[OF a] a b show ?thesis by simp
qed

text \<open>
  C10. For every document accepted by the parser whose starting grid position is at
  least 1 (the parser has checked that it is at most the field size), every lap record's
  position lies in \<open>[1, fieldSize]\<close>.
\<close>

theorem lap_positions_within_field:
  assumes "data (parseStrategyDSL dslText) = Some d"
    and "1 \<le> startingGridPosition (carProfile d)"
  shows "\<forall>r\<in>set (lapData (simulateParsed d)).
           1 \<le> position r \<and> position r \<le> fieldSize (raceConfig d)"
  unfolding simulateParsed_def
  using assms(2) valid_grid[OF assms(1)] by (rule lap_positions_in_field)

theorem lap_positions_within_field_witness:
  "data (parseStrategyDSL sprintDSL) = Some sprintDoc
   \<and> startingGridPosition (carProfile sprintDoc) = 9
   \<and> fieldSize (raceConfig sprintDoc) = 20
   \<and> map position (lapData (simulateParsed sprintDoc)) = [9, 9, 9, 9, 9]
   \<and> list_all (\<lambda>r. 1 \<le> position r \<and> position r \<le> 20) (lapData (simulateParsed sprintDoc))"
proof -
  have a: "data (parseStrategyDSL sprintDSL) = Some sprintDoc" by (simp add: sprint_parse)
  have b: "startingGridPosition (carProfile sprintDoc) = 9"
    "fieldSize (raceConfig sprintDoc) = 20"
    by (simp_all add: sprintDoc_def)
  have c: "map position (lapData (simulateParsed sprintDoc)) = [9, 9, 9, 9, 9]"
    by (simp add: sprint_simulation)
  from lap_positions_within_field[OF a] a b c show ?thesis
    by (simp add: list_all_iff)
qed


end
